theory Spec2Isabelle
  imports Complex_Main
begin

section \<open>Enumerations of the data model\<close>

text \<open>
  The enums of the Prisma schema. Several of them share member names in the source
  (\<open>PENDING\<close>, \<open>VERIFIED\<close>, \<open>COMPLETED\<close>, \<open>CANCELLED\<close>, \<open>REFUNDED\<close>); the order
  status keeps the plain names and the other enums carry a prefix.
\<close>

datatype UserRole = CITIZEN | SCOUT | VENDOR | BUSINESS | ADMIN

datatype OrderStatus =
    PENDING | ACCEPTED | PAYMENT_PENDING | PAID | PREPARING
  | OUT_FOR_DELIVERY | DELIVERED | COMPLETED | CANCELLED | REFUNDED

datatype TransactionStatus =
    TX_PENDING | TX_PROCESSING | TX_COMPLETED | TX_FAILED | TX_REFUNDED

datatype EscrowStatus = ESCROW_NONE | ESCROW_HELD | ESCROW_RELEASED | ESCROW_REFUNDED

datatype AlertStatus = ALERT_ACTIVE | ALERT_EXPIRED | ALERT_CANCELLED | ALERT_VERIFIED

datatype ReportType =
    LEAK | BURST_PIPE | CONTAMINATION | BLOCKED_DRAIN | FLOOD | BROKEN_TAP | OTHER

datatype ReportStatus =
    REPORT_PENDING | REPORT_VERIFIED | REPORT_FORWARDED | REPORT_IN_PROGRESS
  | REPORT_RESOLVED | REPORT_REJECTED

text \<open>The strings of the enum members, as they appear in requests and messages.\<close>

fun OrderStatus_name :: "OrderStatus \<Rightarrow> string" where
  "OrderStatus_name PENDING = ''PENDING''"
| "OrderStatus_name ACCEPTED = ''ACCEPTED''"
| "OrderStatus_name PAYMENT_PENDING = ''PAYMENT_PENDING''"
| "OrderStatus_name PAID = ''PAID''"
| "OrderStatus_name PREPARING = ''PREPARING''"
| "OrderStatus_name OUT_FOR_DELIVERY = ''OUT_FOR_DELIVERY''"
| "OrderStatus_name DELIVERED = ''DELIVERED''"
| "OrderStatus_name COMPLETED = ''COMPLETED''"
| "OrderStatus_name CANCELLED = ''CANCELLED''"
| "OrderStatus_name REFUNDED = ''REFUNDED''"

fun ReportType_name :: "ReportType \<Rightarrow> string" where
  "ReportType_name LEAK = ''LEAK''"
| "ReportType_name BURST_PIPE = ''BURST_PIPE''"
| "ReportType_name CONTAMINATION = ''CONTAMINATION''"
| "ReportType_name BLOCKED_DRAIN = ''BLOCKED_DRAIN''"
| "ReportType_name FLOOD = ''FLOOD''"
| "ReportType_name BROKEN_TAP = ''BROKEN_TAP''"
| "ReportType_name OTHER = ''OTHER''"

section \<open>Errors\<close>

text \<open>
  \<open>AppError\<close> of utils/errors.ts, one constructor per error code that the modelled
  handlers can raise. \<open>ORDER_INVALID_STATUS\<close> carries the two values interpolated
  into its message, \<open>MIN_ORDER_NOT_MET\<close> the minimum interpolated into its message,
  \<open>VALIDATION_ERROR\<close> its details. A detail is either written by a handler (field and
  message) or comes from the schema middleware, whose message text belongs to the
  validation library and is not modelled.
  \<open>INTERNAL_ERROR\<close> stands for the generic 500 reply of \<open>sendError\<close> to an exception
  that is not an \<open>AppError\<close>.
\<close>

datatype ValidationDetail = FieldMessage string string | SchemaIssues

datatype AppError =
    FORBIDDEN string
  | ORDER_NOT_FOUND
  | ORDER_INVALID_STATUS OrderStatus string
  | VENDOR_NOT_FOUND
  | VENDOR_NOT_ACTIVE
  | PRODUCT_NOT_FOUND
  | PRODUCT_UNAVAILABLE
  | MIN_ORDER_NOT_MET int
  | ALERT_NOT_FOUND
  | REPORT_NOT_FOUND
  | VALIDATION_ERROR "ValidationDetail list"
  | INTERNAL_ERROR

fun isOk :: "'e + 'a \<Rightarrow> bool" where
  "isOk (Inr _) = True"
| "isOk (Inl _) = False"

section \<open>Configuration\<close>

text \<open>
  The \<open>reputation\<close> and \<open>bounty\<close> sections of the configuration object. The
  bounty section is an object literal, kept as its list of keys and values.
\<close>

definition config_reputation_reportPoints :: int where
  "config_reputation_reportPoints = 5"

definition config_reputation_verifiedReportBonus :: int where
  "config_reputation_verifiedReportBonus = 15"

definition config_bounty :: "(string \<times> int) list" where
  "config_bounty =
     [(''leak'', 20000), (''burstPipe'', 30000), (''contamination'', 25000),
      (''blockedDrain'', 15000), (''flood'', 20000), (''brokenTap'', 10000),
      (''other'', 5000)]"

section \<open>Scoring utilities (utils/helpers.ts)\<close>

text \<open>
  \<open>calculatePlatformFee\<close>. JavaScript numbers are read as real numbers, and
  \<open>Math.round\<close> is \<^const>\<open>round\<close>: both are \<open>\<lfloor>y + 1/2\<rfloor>\<close>, halves going up.
  \<open>platformFee\<close> is the call with the default arguments, the only one the
  repository makes.
\<close>

definition calculatePlatformFee :: "real \<Rightarrow> real \<Rightarrow> int \<Rightarrow> int \<Rightarrow> int" where
  "calculatePlatformFee subtotal feePercentage minFee maxFee =
     (let calculatedFee = round (subtotal * feePercentage)
      in max minFee (min maxFee calculatedFee))"

definition platformFee :: "real \<Rightarrow> int" where
  "platformFee subtotal = calculatePlatformFee subtotal (5 / 100) 500 50000"

text \<open>The spec's \<open>clamp(v, min, max)\<close>, written from its words.\<close>

definition spec_clamp :: "int \<Rightarrow> int \<Rightarrow> int \<Rightarrow> int" where
  "spec_clamp v lo hi = (if v < lo then lo else if hi < v then hi else v)"

text \<open>\<open>String.prototype.toLowerCase\<close> on the ASCII letters.\<close>

definition toLowerChar :: "char \<Rightarrow> char" where
  "toLowerChar c =
     (let n = (of_char c :: nat)
      in if 65 \<le> n \<and> n \<le> 90 then char_of (n + 32) else c)"

definition toLowerCase :: "string \<Rightarrow> string" where
  "toLowerCase s = map toLowerChar s"

text \<open>
  The bounty lookup of the report creation handler:
  \<^verbatim>\<open>config.bounty[type.toLowerCase()] || config.bounty.other\<close>.
  A missing key reads as \<open>undefined\<close> and, like \<open>0\<close>, falls through \<open>||\<close>.
\<close>

definition config_bounty_other :: int where
  "config_bounty_other = (case map_of config_bounty ''other'' of Some v \<Rightarrow> v | None \<Rightarrow> 0)"

definition bountyAmountFor :: "ReportType \<Rightarrow> int" where
  "bountyAmountFor type =
     (case map_of config_bounty (toLowerCase (ReportType_name type)) of
        Some v \<Rightarrow> if v \<noteq> 0 then v else config_bounty_other
      | None \<Rightarrow> config_bounty_other)"

text \<open>The spec's per-type table, written from its words.\<close>

fun spec_bountyTable :: "ReportType \<Rightarrow> int" where
  "spec_bountyTable LEAK = 20000"
| "spec_bountyTable BURST_PIPE = 30000"
| "spec_bountyTable CONTAMINATION = 25000"
| "spec_bountyTable BLOCKED_DRAIN = 15000"
| "spec_bountyTable FLOOD = 20000"
| "spec_bountyTable BROKEN_TAP = 10000"
| "spec_bountyTable OTHER = 5000"

section \<open>Double-precision arithmetic\<close>

text \<open>
  The arithmetic of the handlers on fractional values is IEEE 754 double precision.
  \<open>double x\<close> is the double nearest to the real number \<open>x\<close>, ties going to the even
  significand (53 bits); an operation of the source is the exact operation followed by
  this rounding. The exponent range, infinities and NaN are not modelled: the values
  below are scores between 0 and 1, counts and amounts of money, far inside the range.
\<close>

definition roundTiesToEven :: "real \<Rightarrow> int" where
  "roundTiesToEven y =
     (let n = \<lfloor>y\<rfloor>; r = y - of_int n
      in if r < 1 / 2 then n else if 1 / 2 < r then n + 1 else if even n then n else n + 1)"

definition double :: "real \<Rightarrow> real" where
  "double x =
     (if x = 0 then 0
      else let e = \<lfloor>log 2 \<bar>x\<bar>\<rfloor> - 52
           in of_int (roundTiesToEven (x / 2 powr of_int e)) * 2 powr of_int e)"

section \<open>Entities and the store\<close>

text \<open>
  The rows of the relational store, with the columns that the modelled handlers read or
  write (free-text columns such as addresses and descriptions are left out). Timestamps
  are milliseconds since the epoch. A table is the list of its rows; the \<open>id\<close>
  column is the primary key. The \<open>reputation\<close> column of the users table is kept as
  a function of the user id: every user id that a handler touches belongs to an
  authenticated user or is a foreign key of a stored row.
\<close>

record AuthUser =
  user_id :: string
  user_role :: UserRole

record Vendor =
  vendor_id :: string
  vendor_userId :: string
  vendor_isActive :: bool
  vendor_isVerified :: bool
  vendor_deliveryFee :: int
  vendor_minOrder :: int

record Product =
  product_id :: string
  product_vendorId :: string
  product_price :: int
  product_isAvailable :: bool

record OrderItem =
  item_productId :: string
  item_quantity :: int
  item_unitPrice :: int
  item_totalPrice :: int

record Order =
  order_id :: string
  order_customerId :: string
  order_vendorId :: string
  order_status :: OrderStatus
  order_subtotal :: int
  order_deliveryFee :: int
  order_platformFee :: int
  order_totalAmount :: int
  order_items :: "OrderItem list"
  order_acceptedAt :: "int option"
  order_deliveredAt :: "int option"
  order_completedAt :: "int option"
  order_cancelledAt :: "int option"
  order_cancelReason :: "string option"

record Transaction =
  txn_id :: string
  txn_orderId :: string
  txn_amount :: int
  txn_status :: TransactionStatus
  txn_escrowStatus :: EscrowStatus
  txn_escrowReleasedAt :: "int option"

record Alert =
  alert_id :: string
  alert_scoutId :: string
  alert_confidence :: real
  alert_isVerified :: bool
  alert_feedbackScore :: "real option"
  alert_feedbackCount :: int
  alert_status :: AlertStatus

record GeoJSONPoint =
  coordinates :: "real \<times> real"

record LatLng =
  lng :: real
  lat :: real

record Report =
  report_id :: string
  report_userId :: string
  report_type :: ReportType
  report_location :: GeoJSONPoint
  report_status :: ReportStatus
  report_verifiedCount :: int
  report_bountyAmount :: "int option"
  report_bountyPaid :: bool
  report_bountyPaidAt :: "int option"
  report_resolvedAt :: "int option"
  report_resolvedBy :: "string option"
  report_resolution :: "string option"
  report_createdAt :: int

record Db =
  vendors :: "Vendor list"
  products :: "Product list"
  orders :: "Order list"
  transactions :: "Transaction list"
  alerts :: "Alert list"
  reports :: "Report list"
  reputation :: "string \<Rightarrow> int"

text \<open>
  \<open>update({where: {id}, data})\<close>: the row with that key is rewritten, the others
  are kept. The handlers only update rows they have just read.
\<close>

definition updateWhere :: "('r \<Rightarrow> string) \<Rightarrow> string \<Rightarrow> ('r \<Rightarrow> 'r) \<Rightarrow> 'r list \<Rightarrow> 'r list" where
  "updateWhere key k f rows = map (\<lambda>r. if key r = k then f r else r) rows"

text \<open>The role check of the \<open>authorize\<close> middleware.\<close>

definition authorize :: "UserRole list \<Rightarrow> AuthUser \<Rightarrow> bool" where
  "authorize allowedRoles user \<longleftrightarrow> user_role user \<in> set allowedRoles"

section \<open>Order state machine (routes/orders.routes.ts)\<close>

text \<open>The enum of \<open>updateStatusSchema\<close>.\<close>

definition updateStatusSchema :: "OrderStatus \<Rightarrow> bool" where
  "updateStatusSchema status \<longleftrightarrow>
     status \<in> set [ACCEPTED, PREPARING, OUT_FOR_DELIVERY, DELIVERED]"

text \<open>The handler's table \<open>validTransitions\<close>.\<close>

fun validTransitions :: "OrderStatus \<Rightarrow> OrderStatus list" where
  "validTransitions PENDING = [ACCEPTED, CANCELLED]"
| "validTransitions ACCEPTED = [PREPARING, CANCELLED]"
| "validTransitions PAYMENT_PENDING = [PAID, CANCELLED]"
| "validTransitions PAID = [PREPARING]"
| "validTransitions PREPARING = [OUT_FOR_DELIVERY]"
| "validTransitions OUT_FOR_DELIVERY = [DELIVERED]"
| "validTransitions DELIVERED = [COMPLETED]"
| "validTransitions COMPLETED = []"
| "validTransitions CANCELLED = []"
| "validTransitions REFUNDED = []"

text \<open>The spec's transition table, written from its words.\<close>

fun spec_transitionTable :: "OrderStatus \<Rightarrow> OrderStatus list" where
  "spec_transitionTable PENDING = [ACCEPTED, CANCELLED]"
| "spec_transitionTable ACCEPTED = [PAYMENT_PENDING, CANCELLED]"
| "spec_transitionTable PAYMENT_PENDING = [PAID, CANCELLED]"
| "spec_transitionTable PAID = [PREPARING]"
| "spec_transitionTable PREPARING = [OUT_FOR_DELIVERY, CANCELLED]"
| "spec_transitionTable OUT_FOR_DELIVERY = [DELIVERED]"
| "spec_transitionTable DELIVERED = [COMPLETED]"
| "spec_transitionTable COMPLETED = []"
| "spec_transitionTable CANCELLED = []"
| "spec_transitionTable REFUNDED = []"

text \<open>
  \<open>PATCH /orders/:id/status\<close>. The pre-handlers (role check, body schema) come
  first; a reply they send ends the request. The order is read with its vendor; the
  foreign key makes the vendor exist, and a missing one would raise a type error
  that \<open>sendError\<close> answers with the generic reply. \<open>now\<close> is the clock read by
  \<open>new Date()\<close>. The reply carries the updated row.
\<close>

definition updateStatusData :: "OrderStatus \<Rightarrow> int \<Rightarrow> Order \<Rightarrow> Order" where
  "updateStatusData status now row =
     (if status = ACCEPTED
        then row\<lparr>order_status := PAYMENT_PENDING, order_acceptedAt := Some now\<rparr>
      else if status = DELIVERED
        then row\<lparr>order_status := status, order_deliveredAt := Some now\<rparr>
      else row\<lparr>order_status := status\<rparr>)"

definition updateStatus ::
  "AuthUser \<Rightarrow> string \<Rightarrow> OrderStatus \<Rightarrow> int \<Rightarrow> Db \<Rightarrow> (AppError + Order) \<times> Db" where
  "updateStatus user oid status now db =
     (if \<not> authorize [VENDOR, ADMIN] user
        then (Inl (FORBIDDEN ''This action requires one of these roles: VENDOR, ADMIN''), db)
      else if \<not> updateStatusSchema status
        then (Inl (VALIDATION_ERROR [SchemaIssues]), db)
      else case find (\<lambda>row. order_id row = oid) (orders db) of
        None \<Rightarrow> (Inl ORDER_NOT_FOUND, db)
      | Some order \<Rightarrow>
         (case find (\<lambda>v. vendor_id v = order_vendorId order) (vendors db) of
            None \<Rightarrow> (Inl INTERNAL_ERROR, db)
          | Some vendor \<Rightarrow>
             if vendor_userId vendor \<noteq> user_id user \<and> user_role user \<noteq> ADMIN
               then (Inl (FORBIDDEN ''Only the vendor can update order status''), db)
             else if status \<notin> set (validTransitions (order_status order))
               then (Inl (ORDER_INVALID_STATUS (order_status order) (OrderStatus_name status)), db)
             else (Inr (updateStatusData status now order),
                   db\<lparr>orders := updateWhere order_id oid (updateStatusData status now) (orders db)\<rparr>)))"

text \<open>
  \<open>POST /orders/:id/confirm-delivery\<close>. The two updates run in one database
  transaction; \<open>now1\<close> and \<open>now2\<close> are the two readings of the clock.
\<close>

definition confirmDelivery ::
  "AuthUser \<Rightarrow> string \<Rightarrow> int \<Rightarrow> int \<Rightarrow> Db \<Rightarrow> (AppError + string) \<times> Db" where
  "confirmDelivery user oid now1 now2 db =
     (case find (\<lambda>row. order_id row = oid) (orders db) of
        None \<Rightarrow> (Inl ORDER_NOT_FOUND, db)
      | Some order \<Rightarrow>
          if order_customerId order \<noteq> user_id user
            then (Inl (FORBIDDEN ''Only the customer can confirm delivery''), db)
          else if order_status order \<noteq> DELIVERED
            then (Inl (ORDER_INVALID_STATUS (order_status order) ''DELIVERED''), db)
          else
            let db1 = db\<lparr>orders := updateWhere order_id oid
                        (\<lambda>row. row\<lparr>order_status := COMPLETED, order_completedAt := Some now1\<rparr>)
                        (orders db)\<rparr>;
                db2 = (case find (\<lambda>t. txn_orderId t = oid) (transactions db) of
                         None \<Rightarrow> db1
                       | Some transaction \<Rightarrow>
                           db1\<lparr>transactions := updateWhere txn_id (txn_id transaction)
                             (\<lambda>t. t\<lparr>txn_escrowStatus := ESCROW_RELEASED,
                                    txn_escrowReleasedAt := Some now2\<rparr>)
                             (transactions db1)\<rparr>)
            in (Inr ''Delivery confirmed. Payment released to vendor.'', db2))"

section \<open>Order pricing and validation (routes/orders.routes.ts)\<close>

text \<open>
  \<open>POST /orders\<close>. A requested line item is a product id and a quantity. The body
  schema asks of a quantity only that it is a number and at least 1, so it is a double
  here, like the amounts computed from it. The address fields of the request play no
  part in the pricing and are left out. \<open>createOrderSchema\<close> is the part of the body
  schema on the vendor id and the items.
\<close>

record CreateOrderItem =
  req_productId :: string
  req_quantity :: real

definition createOrderSchema :: "string \<Rightarrow> CreateOrderItem list \<Rightarrow> bool" where
  "createOrderSchema vendorId items \<longleftrightarrow>
     vendorId \<noteq> [] \<and> items \<noteq> [] \<and>
     list_all (\<lambda>i. req_productId i \<noteq> [] \<and> 1 \<le> req_quantity i) items"

text \<open>An element of \<open>orderItems\<close>, as the handler hands it to the store.\<close>

record OrderItemData =
  data_productId :: string
  data_quantity :: real
  data_unitPrice :: int
  data_totalPrice :: real

text \<open>
  The \<open>items.map\<close> callback with its running \<open>subtotal\<close>. \<open>products.find\<close>
  returns the first product with the item's id; the non-null assertion on a missing
  product would raise a type error, here \<open>None\<close>.
\<close>

fun priceItems ::
  "Product list \<Rightarrow> CreateOrderItem list \<Rightarrow> real \<Rightarrow> (OrderItemData list \<times> real) option" where
  "priceItems productRows [] subtotal = Some ([], subtotal)"
| "priceItems productRows (item # rest) subtotal =
     (case find (\<lambda>p. product_id p = req_productId item) productRows of
        None \<Rightarrow> None
      | Some product \<Rightarrow>
          let totalPrice = double (of_int (product_price product) * req_quantity item)
          in (case priceItems productRows rest (double (subtotal + totalPrice)) of
                None \<Rightarrow> None
              | Some (orderItems, subtotal') \<Rightarrow>
                  Some (\<lparr>data_productId = req_productId item,
                         data_quantity = req_quantity item,
                         data_unitPrice = product_price product,
                         data_totalPrice = totalPrice\<rparr> # orderItems, subtotal')))"

text \<open>
  The quantity and the amounts of an order and of its items are \<open>Int\<close> columns of the
  store's schema (32 bits). The store's client refuses a create whose value for such a
  column is not a whole number in that range; the exception is not an \<open>AppError\<close>, and
  \<open>sendError\<close> answers it with the generic reply.
\<close>

definition intColumn :: "real \<Rightarrow> int option" where
  "intColumn x =
     (if of_int \<lfloor>x\<rfloor> = x \<and> - 2147483648 \<le> x \<and> x \<le> 2147483647 then Some \<lfloor>x\<rfloor> else None)"

fun createItems :: "OrderItemData list \<Rightarrow> OrderItem list option" where
  "createItems [] = Some []"
| "createItems (d # ds) =
     (case intColumn (data_quantity d) of
        None \<Rightarrow> None
      | Some quantity \<Rightarrow>
         (case intColumn (data_totalPrice d) of
            None \<Rightarrow> None
          | Some totalPrice \<Rightarrow>
             (case createItems ds of
                None \<Rightarrow> None
              | Some rows \<Rightarrow>
                  Some (\<lparr>item_productId = data_productId d, item_quantity = quantity,
                         item_unitPrice = data_unitPrice d,
                         item_totalPrice = totalPrice\<rparr> # rows))))"

text \<open>\<open>newId\<close> is the key that the store generates for the created order.\<close>

definition createOrder ::
  "AuthUser \<Rightarrow> string \<Rightarrow> CreateOrderItem list \<Rightarrow> string \<Rightarrow> Db \<Rightarrow> (AppError + Order) \<times> Db" where
  "createOrder user vendorId items newId db =
     (if \<not> createOrderSchema vendorId items
        then (Inl (VALIDATION_ERROR [SchemaIssues]), db)
      else case find (\<lambda>v. vendor_id v = vendorId) (vendors db) of
        None \<Rightarrow> (Inl VENDOR_NOT_FOUND, db)
      | Some vendor \<Rightarrow>
          if \<not> vendor_isActive vendor \<or> \<not> vendor_isVerified vendor
            then (Inl VENDOR_NOT_ACTIVE, db)
          else
            let productIds = map req_productId items;
                found = filter (\<lambda>p. product_id p \<in> set productIds \<and> product_vendorId p = vendorId)
                          (products db)
            in if length found \<noteq> length productIds then (Inl PRODUCT_NOT_FOUND, db)
               else if find (\<lambda>p. \<not> product_isAvailable p) found \<noteq> None
                 then (Inl PRODUCT_UNAVAILABLE, db)
               else (case priceItems found items 0 of
                 None \<Rightarrow> (Inl INTERNAL_ERROR, db)
               | Some (orderItems, subtotal) \<Rightarrow>
                   if subtotal < of_int (vendor_minOrder vendor)
                     then (Inl (MIN_ORDER_NOT_MET (vendor_minOrder vendor)), db)
                   else
                     let deliveryFee = vendor_deliveryFee vendor;
                         fee = platformFee subtotal;
                         totalAmount = double (double (subtotal + of_int deliveryFee) + of_int fee)
                     in (case intColumn subtotal of
                           None \<Rightarrow> (Inl INTERNAL_ERROR, db)
                         | Some subtotalRow \<Rightarrow>
                            (case intColumn totalAmount of
                               None \<Rightarrow> (Inl INTERNAL_ERROR, db)
                             | Some totalAmountRow \<Rightarrow>
                                (case createItems orderItems of
                                   None \<Rightarrow> (Inl INTERNAL_ERROR, db)
                                 | Some itemRows \<Rightarrow>
                                    let order = \<lparr>order_id = newId,
                                          order_customerId = user_id user,
                                          order_vendorId = vendorId, order_status = PENDING,
                                          order_subtotal = subtotalRow,
                                          order_deliveryFee = deliveryFee,
                                          order_platformFee = fee,
                                          order_totalAmount = totalAmountRow,
                                          order_items = itemRows, order_acceptedAt = None,
                                          order_deliveredAt = None, order_completedAt = None,
                                          order_cancelledAt = None, order_cancelReason = None\<rparr>
                                    in (Inr order, db\<lparr>orders := orders db @ [order]\<rparr>))))))"

text \<open>
  The spec's subtotal, written from its words: the sum over the requested items of
  quantity times the current price of the product in the vendor's catalog.
\<close>

definition catalogPrice :: "Product list \<Rightarrow> string \<Rightarrow> string \<Rightarrow> int" where
  "catalogPrice catalog vendorId pid =
     (case find (\<lambda>p. product_id p = pid \<and> product_vendorId p = vendorId) catalog of
        Some p \<Rightarrow> product_price p
      | None \<Rightarrow> 0)"

definition spec_subtotal :: "Product list \<Rightarrow> string \<Rightarrow> CreateOrderItem list \<Rightarrow> real" where
  "spec_subtotal catalog vendorId items =
     sum_list (map (\<lambda>i. req_quantity i * of_int (catalogPrice catalog vendorId (req_productId i)))
                 items)"

text \<open>A requested item matches an available product of the vendor's catalog.\<close>

definition matchesAvailable :: "Product list \<Rightarrow> string \<Rightarrow> CreateOrderItem \<Rightarrow> bool" where
  "matchesAvailable catalog vendorId i \<longleftrightarrow>
     list_ex (\<lambda>p. product_id p = req_productId i \<and> product_vendorId p = vendorId
                 \<and> product_isAvailable p) catalog"

section \<open>Alert feedback and cancellation (routes/alerts.routes.ts)\<close>

text \<open>
  \<open>POST /alerts/:id/feedback\<close>. The score is a float column and the running mean is
  computed in doubles: a product, a sum and a quotient, each rounded; the literal
  \<open>0.7\<close> is the double nearest to 7/10. The count is an integer, exact as a double.
  \<open>alert.feedbackScore || 0\<close> reads a missing score as \<open>0\<close>. Stored counts are never
  negative (they start at 0 and are only incremented), so the divisor is positive. The
  reply carries the new score and count.
\<close>

definition submitFeedback :: "string \<Rightarrow> bool \<Rightarrow> Db \<Rightarrow> (AppError + real \<times> int) \<times> Db" where
  "submitFeedback aid accurate db =
     (case find (\<lambda>a. alert_id a = aid) (alerts db) of
        None \<Rightarrow> (Inl ALERT_NOT_FOUND, db)
      | Some alert \<Rightarrow>
          let newFeedbackCount = alert_feedbackCount alert + 1;
              currentScore = (case alert_feedbackScore alert of None \<Rightarrow> 0 | Some sc \<Rightarrow> sc);
              feedbackValue = (if accurate then 1 else 0);
              newScore = double (double (double (currentScore
                                                   * of_int (alert_feedbackCount alert))
                                           + feedbackValue)
                                   / of_int newFeedbackCount);
              db1 = db\<lparr>alerts := updateWhere alert_id aid
                      (\<lambda>a. a\<lparr>alert_feedbackScore := Some newScore,
                             alert_feedbackCount := newFeedbackCount,
                             alert_isVerified := (double (7 / 10) \<le> newScore
                                                  \<and> 3 \<le> newFeedbackCount)\<rparr>)
                      (alerts db)\<rparr>;
              db2 = (if accurate
                     then db1\<lparr>reputation := (reputation db1)
                            (alert_scoutId alert := reputation db1 (alert_scoutId alert) + 2)\<rparr>
                     else db1)
          in (Inr (newScore, newFeedbackCount), db2))"

text \<open>A sequence of feedback submissions on one alert, each on the store the last left.\<close>

fun submitFeedbacks :: "string \<Rightarrow> bool list \<Rightarrow> Db \<Rightarrow> Db" where
  "submitFeedbacks aid [] db = db"
| "submitFeedbacks aid (accurate # rest) db =
     submitFeedbacks aid rest (snd (submitFeedback aid accurate db))"

text \<open>\<open>PATCH /alerts/:id/cancel\<close>.\<close>

definition cancelAlert :: "AuthUser \<Rightarrow> string \<Rightarrow> Db \<Rightarrow> (AppError + string) \<times> Db" where
  "cancelAlert user aid db =
     (case find (\<lambda>a. alert_id a = aid) (alerts db) of
        None \<Rightarrow> (Inl ALERT_NOT_FOUND, db)
      | Some alert \<Rightarrow>
          if alert_scoutId alert \<noteq> user_id user \<and> user_role user \<noteq> ADMIN
            then (Inl (FORBIDDEN ''You can only cancel your own alerts''), db)
          else (Inr ''Alert cancelled'',
                db\<lparr>alerts := updateWhere alert_id aid
                       (\<lambda>a. a\<lparr>alert_status := ALERT_CANCELLED\<rparr>) (alerts db)\<rparr>))"

section \<open>Report deduplication and resolution (routes/reports.routes.ts)\<close>

text \<open>
  \<open>calculateDistance\<close>, the haversine formula, over the real numbers.
  \<open>atan2\<close> is \<open>Math.atan2\<close>.
\<close>

definition atan2 :: "real \<Rightarrow> real \<Rightarrow> real" where
  "atan2 y x =
     (if 0 < x then arctan (y / x)
      else if x < 0 \<and> 0 \<le> y then arctan (y / x) + pi
      else if x < 0 \<and> y < 0 then arctan (y / x) - pi
      else if 0 < y then pi / 2
      else if y < 0 then - (pi / 2)
      else 0)"

definition calculateDistance :: "LatLng \<Rightarrow> LatLng \<Rightarrow> real" where
  "calculateDistance point1 point2 =
     (let R = 6371000;
          phi1 = (lat point1 * pi) / 180;
          phi2 = (lat point2 * pi) / 180;
          dphi = ((lat point2 - lat point1) * pi) / 180;
          dlambda = ((lng point2 - lng point1) * pi) / 180;
          a = sin (dphi / 2) * sin (dphi / 2)
              + cos phi1 * cos phi2 * sin (dlambda / 2) * sin (dlambda / 2);
          c = 2 * atan2 (sqrt a) (sqrt (1 - a))
      in R * c)"

definition extractCoordinates :: "GeoJSONPoint \<Rightarrow> LatLng" where
  "extractCoordinates point = \<lparr>lng = fst (coordinates point), lat = snd (coordinates point)\<rparr>"

text \<open>The bounds of \<open>geoPointSchema\<close> on the location of a new report.\<close>

definition geoPointSchema :: "GeoJSONPoint \<Rightarrow> bool" where
  "geoPointSchema point \<longleftrightarrow>
     - 180 \<le> fst (coordinates point) \<and> fst (coordinates point) \<le> 180 \<and>
     - 90 \<le> snd (coordinates point) \<and> snd (coordinates point) \<le> 90"

text \<open>The query for recent reports of the same type that are still open.\<close>

definition recentReportsOf :: "ReportType \<Rightarrow> int \<Rightarrow> Report list \<Rightarrow> Report list" where
  "recentReportsOf type now rows =
     filter (\<lambda>r. report_type r = type
                \<and> report_status r \<in> set [REPORT_PENDING, REPORT_VERIFIED, REPORT_FORWARDED,
                                           REPORT_IN_PROGRESS]
                \<and> now - 24 * 60 * 60 * 1000 \<le> report_createdAt r) rows"

text \<open>The first loop: the count of nearby reports and the duplicate flag.\<close>

fun scanNearby :: "LatLng \<Rightarrow> string \<Rightarrow> Report list \<Rightarrow> int \<times> bool \<Rightarrow> int \<times> bool" where
  "scanNearby locationCoords userId [] acc = acc"
| "scanNearby locationCoords userId (report # rest) (nearbyReportCount, isDuplicate) =
     (let reportCoords = extractCoordinates (report_location report);
          distance = calculateDistance locationCoords reportCoords
      in if distance < 100
           then scanNearby locationCoords userId rest
                  (nearbyReportCount + 1,
                   if report_userId report = userId then True else isDuplicate)
           else scanNearby locationCoords userId rest (nearbyReportCount, isDuplicate))"

text \<open>
  The second loop: every nearby report that was read as pending is updated. It runs
  over the rows as they were read, and writes to the table.
\<close>

fun verifyNearby :: "LatLng \<Rightarrow> int \<Rightarrow> Report list \<Rightarrow> Report list \<Rightarrow> Report list" where
  "verifyNearby locationCoords verifiedCount [] table = table"
| "verifyNearby locationCoords verifiedCount (r # rest) table =
     (let reportCoords = extractCoordinates (report_location r);
          distance = calculateDistance locationCoords reportCoords
      in if distance < 100 \<and> report_status r = REPORT_PENDING
           then verifyNearby locationCoords verifiedCount rest
                  (updateWhere report_id (report_id r)
                     (\<lambda>x. x\<lparr>report_status := REPORT_VERIFIED,
                            report_verifiedCount := verifiedCount\<rparr>) table)
           else verifyNearby locationCoords verifiedCount rest table)"

text \<open>
  \<open>POST /reports\<close>. The description, address and photos of the request play no
  part in the deduplication and are left out. \<open>newId\<close> is the key that the store
  generates for the created report, \<open>now\<close> the clock. The reply carries the row as it was created (before the
  later update of its status).
\<close>

definition createReport ::
  "AuthUser \<Rightarrow> ReportType \<Rightarrow> GeoJSONPoint \<Rightarrow> string \<Rightarrow> int \<Rightarrow> Db \<Rightarrow> (AppError + Report) \<times> Db" where
  "createReport user type location newId now db =
     (if \<not> geoPointSchema location then (Inl (VALIDATION_ERROR [SchemaIssues]), db)
      else
        let userId = user_id user;
            recentReports = recentReportsOf type now (reports db);
            locationCoords = extractCoordinates location;
            (nearbyReportCount, isDuplicate) =
               scanNearby locationCoords userId recentReports (0, False)
        in if isDuplicate
             then (Inl (VALIDATION_ERROR [FieldMessage ''location''
                     ''You have already submitted a similar report for this location'']), db)
           else
             let bountyAmount = bountyAmountFor type;
                 report = \<lparr>report_id = newId, report_userId = userId, report_type = type,
                           report_location = location, report_status = REPORT_PENDING,
                           report_verifiedCount = nearbyReportCount + 1,
                           report_bountyAmount = Some bountyAmount, report_bountyPaid = False,
                           report_bountyPaidAt = None, report_resolvedAt = None,
                           report_resolvedBy = None, report_resolution = None,
                           report_createdAt = now\<rparr>;
                 table1 = reports db @ [report];
                 table2 = (if 2 \<le> nearbyReportCount
                           then verifyNearby locationCoords (nearbyReportCount + 1) recentReports
                                  (updateWhere report_id newId
                                     (\<lambda>x. x\<lparr>report_status := REPORT_VERIFIED\<rparr>) table1)
                           else table1)
             in (Inr report,
                 db\<lparr>reports := table2,
                    reputation := (reputation db)
                      (userId := reputation db userId + config_reputation_reportPoints)\<rparr>))"

text \<open>
  A stored report corroborates a new one of the given type and place: same type, still
  open, created in the past 24 hours, less than 100 meters away.
\<close>

definition corroborates :: "ReportType \<Rightarrow> GeoJSONPoint \<Rightarrow> int \<Rightarrow> Report \<Rightarrow> bool" where
  "corroborates type location now r \<longleftrightarrow>
     report_type r = type
     \<and> report_status r \<in> {REPORT_PENDING, REPORT_VERIFIED, REPORT_FORWARDED, REPORT_IN_PROGRESS}
     \<and> now - 86400000 \<le> report_createdAt r
     \<and> calculateDistance (extractCoordinates location)
          (extractCoordinates (report_location r)) < 100"

text \<open>The stored report lies less than 100 meters from the new location.\<close>

abbreviation near :: "LatLng \<Rightarrow> Report \<Rightarrow> bool" where
  "near loc r \<equiv> calculateDistance loc (extractCoordinates (report_location r)) < 100"

text \<open>
  The spec's haversine distance, written from its words: the standard great-circle
  formula on a sphere of radius 6,371,000 meters, on (longitude, latitude) pairs in
  degrees, in meters.
\<close>

definition spec_haversine :: "real \<times> real \<Rightarrow> real \<times> real \<Rightarrow> real" where
  "spec_haversine p q =
     (let phi1 = snd p * pi / 180;
          phi2 = snd q * pi / 180;
          dlambda = (fst q - fst p) * pi / 180;
          h = (sin ((phi2 - phi1) / 2))\<^sup>2 + cos phi1 * cos phi2 * (sin (dlambda / 2))\<^sup>2
      in 2 * 6371000 * arcsin (sqrt h))"

text \<open>
  The spec's corroborating report, written from its words: same type, status pending,
  verified, forwarded or in progress, created within the past 24 hours, within 100
  meters by haversine distance of the new report's place.
\<close>

definition spec_corroborates :: "ReportType \<Rightarrow> real \<times> real \<Rightarrow> int \<Rightarrow> Report \<Rightarrow> bool" where
  "spec_corroborates type place now r \<longleftrightarrow>
     report_type r = type
     \<and> report_status r \<in> {REPORT_PENDING, REPORT_VERIFIED, REPORT_FORWARDED, REPORT_IN_PROGRESS}
     \<and> now - 24 * 60 * 60 * 1000 \<le> report_createdAt r
     \<and> spec_haversine place (coordinates (report_location r)) < 100"

text \<open>
  \<open>PATCH /reports/:id/status\<close>. The body schema bounds the length of the resolution
  text. A missing \<open>resolution\<close> in the body leaves the column as it is.
  \<open>bountyAmount\<close> is tested for truth: null and \<open>0\<close> are false.
\<close>

definition updateReportStatusSchema :: "string option \<Rightarrow> bool" where
  "updateReportStatusSchema resolution \<longleftrightarrow>
     (case resolution of None \<Rightarrow> True | Some res \<Rightarrow> length res \<le> 500)"

definition updateReportStatus ::
  "AuthUser \<Rightarrow> string \<Rightarrow> ReportStatus \<Rightarrow> string option \<Rightarrow> int \<Rightarrow> int \<Rightarrow> Db
     \<Rightarrow> (AppError + Report) \<times> Db" where
  "updateReportStatus user rid status resolution now1 now2 db =
     (if \<not> authorize [ADMIN] user
        then (Inl (FORBIDDEN ''This action requires one of these roles: ADMIN''), db)
      else if \<not> updateReportStatusSchema resolution
        then (Inl (VALIDATION_ERROR [SchemaIssues]), db)
      else case find (\<lambda>r. report_id r = rid) (reports db) of
        None \<Rightarrow> (Inl REPORT_NOT_FOUND, db)
      | Some report \<Rightarrow>
          let adminId = user_id user;
              setStatus = (\<lambda>r. r\<lparr>report_status := status\<rparr>);
              setResolved = (\<lambda>r. (setStatus r)\<lparr>report_resolvedAt := Some now1,
                                  report_resolvedBy := Some adminId,
                                  report_resolution :=
                                    (case resolution of None \<Rightarrow> report_resolution r
                                     | Some res \<Rightarrow> Some res)\<rparr>);
              payBounty = (\<not> report_bountyPaid report
                           \<and> report_bountyAmount report \<noteq> None
                           \<and> report_bountyAmount report \<noteq> Some 0);
              setPaid = (\<lambda>r. (setResolved r)\<lparr>report_bountyPaid := True,
                              report_bountyPaidAt := Some now2\<rparr>);
              updateData = (if status = REPORT_RESOLVED
                            then (if payBounty then setPaid else setResolved)
                            else setStatus);
              db1 = (if status = REPORT_RESOLVED \<and> payBounty
                     then db\<lparr>reputation := (reputation db)
                            (report_userId report := reputation db (report_userId report)
                               + config_reputation_verifiedReportBonus)\<rparr>
                     else db)
          in (Inr (updateData report),
              db1\<lparr>reports := updateWhere report_id rid updateData (reports db1)\<rparr>))"

section \<open>Example data\<close>

text \<open>
  A small store used to run the handlers on concrete requests: one verified vendor with
  two products, one order of that vendor in a given status, and its payment.
\<close>

definition ex_vendorUser :: AuthUser where
  "ex_vendorUser = \<lparr>user_id = ''u_vendor'', user_role = VENDOR\<rparr>"

definition ex_customer :: AuthUser where
  "ex_customer = \<lparr>user_id = ''u_cust'', user_role = CITIZEN\<rparr>"

definition ex_vendor :: Vendor where
  "ex_vendor = \<lparr>vendor_id = ''v1'', vendor_userId = ''u_vendor'', vendor_isActive = True,
     vendor_isVerified = True, vendor_deliveryFee = 2000, vendor_minOrder = 10000\<rparr>"

definition ex_products :: "Product list" where
  "ex_products =
     [\<lparr>product_id = ''p1'', product_vendorId = ''v1'', product_price = 5000,
       product_isAvailable = True\<rparr>,
      \<lparr>product_id = ''p2'', product_vendorId = ''v1'', product_price = 1500,
       product_isAvailable = True\<rparr>]"

definition ex_order :: "OrderStatus \<Rightarrow> Order" where
  "ex_order st = \<lparr>order_id = ''o1'', order_customerId = ''u_cust'', order_vendorId = ''v1'',
     order_status = st, order_subtotal = 20000, order_deliveryFee = 2000,
     order_platformFee = 1000, order_totalAmount = 23000,
     order_items = [\<lparr>item_productId = ''p1'', item_quantity = 4, item_unitPrice = 5000,
                     item_totalPrice = 20000\<rparr>],
     order_acceptedAt = None, order_deliveredAt = None, order_completedAt = None,
     order_cancelledAt = None, order_cancelReason = None\<rparr>"

definition ex_txn :: Transaction where
  "ex_txn = \<lparr>txn_id = ''t1'', txn_orderId = ''o1'', txn_amount = 23000,
     txn_status = TX_COMPLETED, txn_escrowStatus = ESCROW_HELD,
     txn_escrowReleasedAt = None\<rparr>"

definition ex_db :: "OrderStatus \<Rightarrow> Db" where
  "ex_db st = \<lparr>vendors = [ex_vendor], products = ex_products, orders = [ex_order st],
     transactions = [ex_txn], alerts = [], reports = [], reputation = (\<lambda>u. 0)\<rparr>"

definition ex_items :: "real \<Rightarrow> CreateOrderItem list" where
  "ex_items n = [\<lparr>req_productId = ''p1'', req_quantity = n\<rparr>]"

definition ex_items_dup :: "CreateOrderItem list" where
  "ex_items_dup = [\<lparr>req_productId = ''p1'', req_quantity = 2\<rparr>,
                   \<lparr>req_productId = ''p1'', req_quantity = 2\<rparr>]"

definition ex_scout :: AuthUser where
  "ex_scout = \<lparr>user_id = ''u_scout'', user_role = SCOUT\<rparr>"

definition ex_alert :: "AlertStatus \<Rightarrow> Alert" where
  "ex_alert st = \<lparr>alert_id = ''a1'', alert_scoutId = ''u_scout'', alert_confidence = 7 / 10,
     alert_isVerified = False, alert_feedbackScore = None, alert_feedbackCount = 0,
     alert_status = st\<rparr>"

definition ex_alert_db :: "AlertStatus \<Rightarrow> Db" where
  "ex_alert_db st = \<lparr>vendors = [], products = [], orders = [], transactions = [],
     alerts = [ex_alert st], reports = [], reputation = (\<lambda>u. 0)\<rparr>"

definition ex_scored_alert :: "real \<Rightarrow> int \<Rightarrow> Alert" where
  "ex_scored_alert score count = (ex_alert ALERT_ACTIVE)\<lparr>alert_isVerified := True,
     alert_feedbackScore := Some score, alert_feedbackCount := count\<rparr>"

definition ex_scored_db :: "real \<Rightarrow> int \<Rightarrow> Db" where
  "ex_scored_db score count =
     (ex_alert_db ALERT_ACTIVE)\<lparr>alerts := [ex_scored_alert score count]\<rparr>"

definition ex_location :: GeoJSONPoint where
  "ex_location = \<lparr>coordinates = (- 13, 8)\<rparr>"

definition ex_reporter :: "string \<Rightarrow> AuthUser" where
  "ex_reporter uid = \<lparr>user_id = uid, user_role = CITIZEN\<rparr>"

definition ex_admin :: AuthUser where
  "ex_admin = \<lparr>user_id = ''u_admin'', user_role = ADMIN\<rparr>"

definition ex_report :: "string \<Rightarrow> string \<Rightarrow> int \<Rightarrow> int \<Rightarrow> Report" where
  "ex_report rid uid verifiedCount createdAt =
     \<lparr>report_id = rid, report_userId = uid, report_type = LEAK,
      report_location = ex_location, report_status = REPORT_PENDING,
      report_verifiedCount = verifiedCount, report_bountyAmount = Some 20000,
      report_bountyPaid = False, report_bountyPaidAt = None, report_resolvedAt = None,
      report_resolvedBy = None, report_resolution = None, report_createdAt = createdAt\<rparr>"

definition ex_empty_db :: Db where
  "ex_empty_db = \<lparr>vendors = [], products = [], orders = [], transactions = [], alerts = [],
     reports = [], reputation = (\<lambda>u. 0)\<rparr>"

definition ex_report_db :: Db where
  "ex_report_db = ex_empty_db\<lparr>reports := [ex_report ''r1'' ''u1'' 1 1000,
                                               ex_report ''r2'' ''u2'' 2 2000]\<rparr>"

text \<open>
  Reports along one meridian: two pending leak reports about 55 and 22 meters from the
  place of a new report, and one about a kilometer away.
\<close>

definition ex_place :: GeoJSONPoint where
  "ex_place = \<lparr>coordinates = (- 13, 80005 / 10000)\<rparr>"

definition ex_report_at :: "string \<Rightarrow> string \<Rightarrow> real \<Rightarrow> int \<Rightarrow> int \<Rightarrow> Report" where
  "ex_report_at rid uid latitude verifiedCount createdAt =
     (ex_report rid uid verifiedCount createdAt)
       \<lparr>report_location := \<lparr>coordinates = (- 13, latitude)\<rparr>\<rparr>"

definition ex_spread_db :: Db where
  "ex_spread_db = ex_empty_db\<lparr>reports :=
     [ex_report_at ''r0'' ''u0'' (801 / 100) 1 500,
      ex_report_at ''r1'' ''u1'' 8 1 1000,
      ex_report_at ''r2'' ''u2'' (80003 / 10000) 2 2000]\<rparr>"

definition ex_resolved_report :: Report where
  "ex_resolved_report = (ex_report ''r1'' ''u1'' 1 1000)\<lparr>report_status := REPORT_RESOLVED,
     report_bountyPaid := True, report_bountyPaidAt := Some 7001,
     report_resolvedAt := Some 7000, report_resolvedBy := Some ''u_admin'',
     report_resolution := Some ''fixed''\<rparr>"

definition ex_resolved_db :: Db where
  "ex_resolved_db = ex_empty_db\<lparr>reports := [ex_resolved_report]\<rparr>"

section \<open>Platform fee\<close>

lemma platformFee_unfold:
  "platformFee x = max 500 (min 50000 (round (x * (5 / 100))))"
  by (simp add: platformFee_def calculatePlatformFee_def)

lemma max_min_is_clamp:
  "lo \<le> hi \<Longrightarrow> max lo (min hi v) = spec_clamp v lo hi"
  by (simp add: spec_clamp_def max_def min_def)

lemma platformFee_mono: "x \<le> y \<Longrightarrow> platformFee x \<le> platformFee y"
proof -
  assume xy: "x \<le> y"
  have "x * (5 / 100) \<le> y * (5 / 100)" using xy by simp
  then have "round (x * (5 / 100)) \<le> round (y * (5 / 100))" by (rule round_mono)
  then show ?thesis unfolding platformFee_unfold by (simp add: max_def min_def)
qed

text \<open>On whole amounts the fee is integer arithmetic: a twentieth, halves going up.\<close>

lemma platformFee_of_int:
  "platformFee (of_int n) = max 500 (min 50000 ((n + 10) div 20))"
proof -
  have "real_of_int n * (5 / 100) + 1 / 2 = real_of_int (n + 10) / real_of_int 20"
    by simp
  then have "round (real_of_int n * (5 / 100)) = (n + 10) div 20"
    unfolding round_def by (simp only: floor_divide_of_int_eq)
  then show ?thesis unfolding platformFee_unfold by simp
qed

text \<open>
  C10. For every non-negative subtotal \<open>x\<close> the platform fee is
  \<open>clamp(round(x * 0.05), 500, 50000)\<close>; it lies between 500 and 50000 and does not
  decrease when the subtotal grows.
\<close>

theorem platformFee_clamp_bounded_monotone:
  "0 \<le> x \<Longrightarrow> x \<le> y \<Longrightarrow>
     platformFee x = spec_clamp (round (x * 0.05)) 500 50000
   \<and> 500 \<le> platformFee x \<and> platformFee x \<le> 50000
   \<and> platformFee x \<le> platformFee y"
proof (intro conjI)
  assume xy: "x \<le> y"
  show "platformFee x = spec_clamp (round (x * 0.05)) 500 50000"
    unfolding platformFee_unfold by (simp add: max_min_is_clamp)
  show "500 \<le> platformFee x" unfolding platformFee_unfold by simp
  show "platformFee x \<le> 50000" unfolding platformFee_unfold by simp
  show "platformFee x \<le> platformFee y" using xy by (rule platformFee_mono)
qed

theorem platformFee_clamp_bounded_monotone_witness:
  "(0::real) \<le> 20000 \<and> (20000::real) \<le> 1200000
   \<and> platformFee 20000 = 1000 \<and> platformFee 1200000 = 50000
   \<and> platformFee 20000 = spec_clamp (round (20000 * 0.05 :: real)) 500 50000
   \<and> platformFee 20000 \<le> platformFee 1200000"
proof -
  have a: "(0::real) \<le> 20000" and b: "(20000::real) \<le> 1200000" by simp_all
  have v1: "platformFee 20000 = 1000"
    using platformFee_of_int [of 20000] by simp
  have v2: "platformFee 1200000 = 50000"
    using platformFee_of_int [of 1200000] by simp
  show ?thesis
    using platformFee_clamp_bounded_monotone [OF a b] v1 v2 by simp
qed

section \<open>Bounty assignment\<close>

text \<open>
  C7. The bounty of a created report is looked up under the lower-cased type name,
  while the table's keys are camel case: \<open>BURST_PIPE\<close>, \<open>BLOCKED_DRAIN\<close> and
  \<open>BROKEN_TAP\<close> miss their entries (30000, 15000, 10000) and receive the default
  amount 5000. Only \<open>LEAK\<close>, \<open>CONTAMINATION\<close> and \<open>FLOOD\<close> receive their entry.
\<close>

theorem bountyAmountFor_values:
  "bountyAmountFor LEAK = 20000 \<and> bountyAmountFor CONTAMINATION = 25000
   \<and> bountyAmountFor FLOOD = 20000 \<and> bountyAmountFor OTHER = 5000
   \<and> bountyAmountFor BURST_PIPE = 5000 \<and> spec_bountyTable BURST_PIPE = 30000
   \<and> bountyAmountFor BLOCKED_DRAIN = 5000 \<and> spec_bountyTable BLOCKED_DRAIN = 15000
   \<and> bountyAmountFor BROKEN_TAP = 5000 \<and> spec_bountyTable BROKEN_TAP = 10000"
  by code_simp

section \<open>Lookups in an updated table\<close>

lemma find_map_preserved:
  "(\<And>x. P (g x) = P x) \<Longrightarrow> find P (map g xs) = map_option g (find P xs)"
  by (induction xs) simp_all

lemma find_updateWhere_same:
  assumes "\<And>r. key (f r) = key r"
  shows "find (\<lambda>r. key r = k) (updateWhere key k f rows) = map_option f (find (\<lambda>r. key r = k) rows)"
  using assms unfolding updateWhere_def by (induction rows) simp_all

lemma find_updateWhere_other:
  assumes "\<And>r. P (f r) = P r"
  shows "find P (updateWhere key k f rows) =
         map_option (\<lambda>r. if key r = k then f r else r) (find P rows)"
  unfolding updateWhere_def by (rule find_map_preserved) (simp add: assms)

section \<open>Order status updates\<close>

lemma order_id_updateStatusData [simp]: "order_id (updateStatusData s n r) = order_id r"
  by (simp add: updateStatusData_def)

lemma order_status_updateStatusData:
  "order_status (updateStatusData s n r) = (if s = ACCEPTED then PAYMENT_PENDING else s)"
  by (simp add: updateStatusData_def)

text \<open>
  C1, as stated, fails on the handler: its table lets an \<open>ACCEPTED\<close> order go to
  \<open>PREPARING\<close>, which the spec's row for \<open>ACCEPTED\<close> does not contain, and it
  refuses \<open>PAYMENT_PENDING\<close>, which that row contains.
\<close>

theorem updateStatus_counterexample:
  "isOk (fst (updateStatus ex_vendorUser ''o1'' PREPARING 1000 (ex_db ACCEPTED)))
   \<and> PREPARING \<notin> set (spec_transitionTable ACCEPTED)
   \<and> \<not> isOk (fst (updateStatus ex_vendorUser ''o1'' PAYMENT_PENDING 1000 (ex_db ACCEPTED)))
   \<and> PAYMENT_PENDING \<in> set (spec_transitionTable ACCEPTED)"
  by (simp add: updateStatus_def authorize_def updateStatusSchema_def ex_db_def ex_order_def
      ex_vendor_def ex_vendorUser_def)

text \<open>
  C1, amended. For the owning vendor or an administrator, \<open>updateStatus\<close> succeeds
  if and only if the requested status passes the request schema (\<open>ACCEPTED\<close>,
  \<open>PREPARING\<close>, \<open>OUT_FOR_DELIVERY\<close>, \<open>DELIVERED\<close>) and is in the handler's
  \<open>validTransitions\<close> row of the current status; from \<open>ACCEPTED\<close> the only
  accepted request is \<open>PREPARING\<close>. A schema-valid request outside the row fails
  with \<open>ORDER_INVALID_STATUS\<close>, every failure leaves the store unchanged, and a
  success stores the requested status (\<open>PAYMENT_PENDING\<close> for \<open>ACCEPTED\<close>).
\<close>

theorem updateStatus_iff_validTransitions:
  assumes ord: "find (\<lambda>row. order_id row = oid) (orders db) = Some order"
      and ven: "find (\<lambda>v. vendor_id v = order_vendorId order) (vendors db) = Some vendor"
      and role: "authorize [VENDOR, ADMIN] user"
      and own: "vendor_userId vendor = user_id user \<or> user_role user = ADMIN"
  shows "(isOk (fst (updateStatus user oid requested now db)) \<longleftrightarrow>
            updateStatusSchema requested \<and> requested \<in> set (validTransitions (order_status order)))
       \<and> (order_status order = ACCEPTED \<longrightarrow>
            (isOk (fst (updateStatus user oid requested now db)) \<longleftrightarrow> requested = PREPARING))
       \<and> (updateStatusSchema requested \<and> requested \<notin> set (validTransitions (order_status order)) \<longrightarrow>
            updateStatus user oid requested now db =
              (Inl (ORDER_INVALID_STATUS (order_status order) (OrderStatus_name requested)), db))
       \<and> (\<not> isOk (fst (updateStatus user oid requested now db)) \<longrightarrow>
            snd (updateStatus user oid requested now db) = db)
       \<and> (isOk (fst (updateStatus user oid requested now db)) \<longrightarrow>
            find (\<lambda>row. order_id row = oid) (orders (snd (updateStatus user oid requested now db)))
              = Some (updateStatusData requested now order)
          \<and> order_status (updateStatusData requested now order)
              = (if requested = ACCEPTED then PAYMENT_PENDING else requested))"
proof -
  have ok: "isOk (fst (updateStatus user oid requested now db)) \<longleftrightarrow>
            updateStatusSchema requested \<and> requested \<in> set (validTransitions (order_status order))"
    using ord ven role own by (auto simp: updateStatus_def)
  have acc: "order_status order = ACCEPTED \<Longrightarrow>
      (updateStatusSchema requested \<and> requested \<in> set (validTransitions (order_status order)))
        \<longleftrightarrow> requested = PREPARING"
    by (auto simp: updateStatusSchema_def)
  have inv: "updateStatusSchema requested \<and> requested \<notin> set (validTransitions (order_status order)) \<longrightarrow>
            updateStatus user oid requested now db =
              (Inl (ORDER_INVALID_STATUS (order_status order) (OrderStatus_name requested)), db)"
    using ord ven role own by (auto simp: updateStatus_def)
  have unch: "\<not> isOk (fst (updateStatus user oid requested now db)) \<longrightarrow>
            snd (updateStatus user oid requested now db) = db"
    using ord ven role own by (auto simp: updateStatus_def)
  have stored: "isOk (fst (updateStatus user oid requested now db)) \<longrightarrow>
            find (\<lambda>row. order_id row = oid) (orders (snd (updateStatus user oid requested now db)))
              = Some (updateStatusData requested now order)"
    using ord ven role own
    by (auto simp: updateStatus_def find_updateWhere_same)
  show ?thesis using ok acc inv unch stored order_status_updateStatusData by simp
qed

theorem updateStatus_iff_validTransitions_witness:
  "find (\<lambda>row. order_id row = ''o1'') (orders (ex_db PENDING)) = Some (ex_order PENDING)
   \<and> find (\<lambda>v. vendor_id v = order_vendorId (ex_order PENDING)) (vendors (ex_db PENDING)) = Some ex_vendor
   \<and> authorize [VENDOR, ADMIN] ex_vendorUser
   \<and> vendor_userId ex_vendor = user_id ex_vendorUser
   \<and> isOk (fst (updateStatus ex_vendorUser ''o1'' ACCEPTED 1000 (ex_db PENDING)))
   \<and> find (\<lambda>row. order_id row = ''o1'')
        (orders (snd (updateStatus ex_vendorUser ''o1'' ACCEPTED 1000 (ex_db PENDING))))
       = Some ((ex_order PAYMENT_PENDING)\<lparr>order_acceptedAt := Some 1000\<rparr>)
   \<and> updateStatus ex_vendorUser ''o1'' DELIVERED 1000 (ex_db PENDING)
       = (Inl (ORDER_INVALID_STATUS PENDING ''DELIVERED''), ex_db PENDING)"
proof -
  have h1: "find (\<lambda>row. order_id row = ''o1'') (orders (ex_db PENDING)) = Some (ex_order PENDING)"
    by (simp add: ex_db_def ex_order_def)
  have h2: "find (\<lambda>v. vendor_id v = order_vendorId (ex_order PENDING)) (vendors (ex_db PENDING)) = Some ex_vendor"
    by (simp add: ex_db_def ex_order_def ex_vendor_def)
  have h3: "authorize [VENDOR, ADMIN] ex_vendorUser"
    by (simp add: authorize_def ex_vendorUser_def)
  have h4: "vendor_userId ex_vendor = user_id ex_vendorUser \<or> user_role ex_vendorUser = ADMIN"
    by (simp add: ex_vendor_def ex_vendorUser_def)
  have h5: "vendor_userId ex_vendor = user_id ex_vendorUser"
    by (simp add: ex_vendor_def ex_vendorUser_def)
  have s1: "updateStatusSchema ACCEPTED" "updateStatusSchema DELIVERED"
    by (simp_all add: updateStatusSchema_def)
  have st: "order_status (ex_order PENDING) = PENDING" by (simp add: ex_order_def)
  have upd: "updateStatusData ACCEPTED 1000 (ex_order PENDING)
             = (ex_order PAYMENT_PENDING)\<lparr>order_acceptedAt := Some 1000\<rparr>"
    by (simp add: updateStatusData_def ex_order_def)
  show ?thesis
    using updateStatus_iff_validTransitions [OF h1 h2 h3 h4, of ACCEPTED 1000]
          updateStatus_iff_validTransitions [OF h1 h2 h3 h4, of DELIVERED 1000]
          h1 h2 h3 h5 s1 st upd
    by simp
qed

section \<open>Delivery confirmation\<close>

lemma confirmDelivery_ok_iff:
  assumes "find (\<lambda>row. order_id row = oid) (orders db) = Some order"
  shows "isOk (fst (confirmDelivery user oid n1 n2 db)) \<longleftrightarrow>
           order_customerId order = user_id user \<and> order_status order = DELIVERED"
  using assms by (simp add: confirmDelivery_def Let_def split: option.split)

lemma confirmDelivery_failure_unchanged:
  "\<not> isOk (fst (confirmDelivery user oid n1 n2 db)) \<Longrightarrow>
     snd (confirmDelivery user oid n1 n2 db) = db"
  by (simp add: confirmDelivery_def Let_def split: option.splits if_splits)

lemma confirmDelivery_order:
  assumes "find (\<lambda>row. order_id row = oid) (orders db) = Some order"
      and "isOk (fst (confirmDelivery user oid n1 n2 db))"
  shows "find (\<lambda>row. order_id row = oid) (orders (snd (confirmDelivery user oid n1 n2 db)))
         = Some (order\<lparr>order_status := COMPLETED, order_completedAt := Some n1\<rparr>)"
  using assms
  by (simp add: confirmDelivery_def Let_def find_updateWhere_same
           split: option.splits if_splits)

lemma confirmDelivery_transaction:
  assumes ok: "isOk (fst (confirmDelivery user oid n1 n2 db))"
  shows "find (\<lambda>t. txn_orderId t = oid) (transactions (snd (confirmDelivery user oid n1 n2 db)))
         = map_option (\<lambda>t. t\<lparr>txn_escrowStatus := ESCROW_RELEASED, txn_escrowReleasedAt := Some n2\<rparr>)
             (find (\<lambda>t. txn_orderId t = oid) (transactions db))"
proof (cases "find (\<lambda>row. order_id row = oid) (orders db)")
  case None
  then show ?thesis using ok by (simp add: confirmDelivery_def)
next
  case (Some order)
  then have c: "order_customerId order = user_id user" "order_status order = DELIVERED"
    using ok confirmDelivery_ok_iff [OF Some] by simp_all
  show ?thesis
  proof (cases "find (\<lambda>t. txn_orderId t = oid) (transactions db)")
    case None
    then show ?thesis using Some c by (simp add: confirmDelivery_def Let_def)
  next
    case (Some t)
    then show ?thesis using \<open>find (\<lambda>row. order_id row = oid) (orders db) = Some order\<close> c
      by (simp add: confirmDelivery_def Let_def find_updateWhere_other)
  qed
qed

lemma confirmDelivery_completed_fails:
  assumes "find (\<lambda>row. order_id row = oid) (orders db) = Some order"
      and "order_customerId order = user_id user" and "order_status order = COMPLETED"
  shows "confirmDelivery user oid n1 n2 db = (Inl (ORDER_INVALID_STATUS COMPLETED ''DELIVERED''), db)"
  using assms by (simp add: confirmDelivery_def)

text \<open>
  C2. For a stored order, \<open>confirmDelivery\<close> succeeds exactly when the actor is the
  order's customer and the status is \<open>DELIVERED\<close>; a failure changes nothing. On
  success the order is \<open>COMPLETED\<close> with \<open>completedAt\<close> stamped, and the order's
  transaction, if there is one, has escrow status \<open>RELEASED\<close> (so a held escrow is
  released) with \<open>escrowReleasedAt\<close> stamped. A second confirmation by the same actor
  then fails with the invalid-status error and changes nothing.
\<close>

theorem confirmDelivery_completes_and_releases:
  assumes ord: "find (\<lambda>row. order_id row = oid) (orders db) = Some order"
  shows "(isOk (fst (confirmDelivery user oid n1 n2 db)) \<longleftrightarrow>
            order_customerId order = user_id user \<and> order_status order = DELIVERED)
       \<and> (\<not> isOk (fst (confirmDelivery user oid n1 n2 db)) \<longrightarrow>
            snd (confirmDelivery user oid n1 n2 db) = db)
       \<and> (isOk (fst (confirmDelivery user oid n1 n2 db)) \<longrightarrow>
            find (\<lambda>row. order_id row = oid) (orders (snd (confirmDelivery user oid n1 n2 db)))
              = Some (order\<lparr>order_status := COMPLETED, order_completedAt := Some n1\<rparr>)
          \<and> find (\<lambda>t. txn_orderId t = oid)
               (transactions (snd (confirmDelivery user oid n1 n2 db)))
              = map_option
                  (\<lambda>t. t\<lparr>txn_escrowStatus := ESCROW_RELEASED, txn_escrowReleasedAt := Some n2\<rparr>)
                  (find (\<lambda>t. txn_orderId t = oid) (transactions db))
          \<and> confirmDelivery user oid n3 n4 (snd (confirmDelivery user oid n1 n2 db))
              = (Inl (ORDER_INVALID_STATUS COMPLETED ''DELIVERED''),
                 snd (confirmDelivery user oid n1 n2 db)))"
proof (intro conjI impI)
  show "isOk (fst (confirmDelivery user oid n1 n2 db)) \<longleftrightarrow>
          order_customerId order = user_id user \<and> order_status order = DELIVERED"
    using ord by (rule confirmDelivery_ok_iff)
next
  assume "\<not> isOk (fst (confirmDelivery user oid n1 n2 db))"
  then show "snd (confirmDelivery user oid n1 n2 db) = db"
    by (rule confirmDelivery_failure_unchanged)
next
  assume ok: "isOk (fst (confirmDelivery user oid n1 n2 db))"
  let ?db' = "snd (confirmDelivery user oid n1 n2 db)"
  let ?order' = "order\<lparr>order_status := COMPLETED, order_completedAt := Some n1\<rparr>"
  show stored: "find (\<lambda>row. order_id row = oid) (orders ?db') = Some ?order'"
    using ord ok by (rule confirmDelivery_order)
  show "find (\<lambda>t. txn_orderId t = oid) (transactions ?db')
        = map_option
            (\<lambda>t. t\<lparr>txn_escrowStatus := ESCROW_RELEASED, txn_escrowReleasedAt := Some n2\<rparr>)
            (find (\<lambda>t. txn_orderId t = oid) (transactions db))"
    using ok by (rule confirmDelivery_transaction)
  have cust: "order_customerId order = user_id user"
    using ok confirmDelivery_ok_iff [OF ord] by simp
  show "confirmDelivery user oid n3 n4 ?db'
        = (Inl (ORDER_INVALID_STATUS COMPLETED ''DELIVERED''), ?db')"
    by (rule confirmDelivery_completed_fails [OF stored]) (simp_all add: cust)
qed

theorem confirmDelivery_completes_and_releases_witness:
  "find (\<lambda>row. order_id row = ''o1'') (orders (ex_db DELIVERED)) = Some (ex_order DELIVERED)
   \<and> isOk (fst (confirmDelivery ex_customer ''o1'' 5000 5001 (ex_db DELIVERED)))
   \<and> find (\<lambda>row. order_id row = ''o1'')
        (orders (snd (confirmDelivery ex_customer ''o1'' 5000 5001 (ex_db DELIVERED))))
       = Some ((ex_order COMPLETED)\<lparr>order_completedAt := Some 5000\<rparr>)
   \<and> find (\<lambda>t. txn_orderId t = ''o1'')
        (transactions (snd (confirmDelivery ex_customer ''o1'' 5000 5001 (ex_db DELIVERED))))
       = Some (ex_txn\<lparr>txn_escrowStatus := ESCROW_RELEASED, txn_escrowReleasedAt := Some 5001\<rparr>)
   \<and> txn_escrowStatus ex_txn = ESCROW_HELD
   \<and> \<not> isOk (fst (confirmDelivery ex_customer ''o1'' 6000 6001
             (snd (confirmDelivery ex_customer ''o1'' 5000 5001 (ex_db DELIVERED)))))
   \<and> \<not> isOk (fst (confirmDelivery ex_vendorUser ''o1'' 5000 5001 (ex_db DELIVERED)))
   \<and> \<not> isOk (fst (confirmDelivery ex_customer ''o1'' 5000 5001 (ex_db OUT_FOR_DELIVERY)))"
proof -
  have h: "find (\<lambda>row. order_id row = ''o1'') (orders (ex_db st)) = Some (ex_order st)" for st
    by (simp add: ex_db_def ex_order_def)
  have t: "find (\<lambda>t. txn_orderId t = ''o1'') (transactions (ex_db DELIVERED)) = Some ex_txn"
    by (simp add: ex_db_def ex_txn_def)
  have f: "order_customerId (ex_order st) = user_id ex_customer"
          "order_customerId (ex_order st) \<noteq> user_id ex_vendorUser"
          "order_status (ex_order st) = st"
          "(ex_order DELIVERED)\<lparr>order_status := COMPLETED, order_completedAt := Some 5000\<rparr>
             = (ex_order COMPLETED)\<lparr>order_completedAt := Some 5000\<rparr>"
          "txn_escrowStatus ex_txn = ESCROW_HELD" for st
    by (simp_all add: ex_order_def ex_customer_def ex_vendorUser_def ex_txn_def)
  show ?thesis
    using confirmDelivery_completes_and_releases [OF h [of DELIVERED], of ex_customer 5000 5001 6000 6001]
          confirmDelivery_completes_and_releases [OF h [of DELIVERED], of ex_vendorUser 5000 5001 6000 6001]
          confirmDelivery_completes_and_releases [OF h [of OUT_FOR_DELIVERY], of ex_customer 5000 5001 6000 6001]
          h t f
    by simp
qed

section \<open>Lists and keys\<close>

lemma find_filter: "find P (filter Q xs) = find (\<lambda>x. P x \<and> Q x) xs"
  by (induction xs) simp_all

lemma find_Some_mem: "find P xs = Some x \<Longrightarrow> x \<in> set xs \<and> P x"
  by (induction xs) (auto split: if_splits)

lemma find_exists: "\<exists>x\<in>set xs. P x \<Longrightarrow> \<exists>x. find P xs = Some x"
  by (induction xs) auto

lemma key_unique:
  "distinct (map key rows) \<Longrightarrow> r \<in> set rows \<Longrightarrow> r' \<in> set rows \<Longrightarrow> key r = key r' \<Longrightarrow> r = r'"
  by (meson distinct_map inj_onD)

section \<open>Facts about double-precision rounding\<close>

lemma roundTiesToEven_of_int [simp]: "roundTiesToEven (of_int n) = n"
  by (simp add: roundTiesToEven_def)

lemma roundTiesToEven_near: "\<bar>of_int (roundTiesToEven y) - y\<bar> \<le> 1 / 2"
  unfolding roundTiesToEven_def Let_def by (auto simp: abs_if) linarith+

text \<open>Evaluation in a known binade.\<close>

lemma double_binade:
  assumes "2 powr of_int k \<le> \<bar>x\<bar>" and "\<bar>x\<bar> < 2 powr of_int (k + 1)"
  shows "double x = of_int (roundTiesToEven (x / 2 powr of_int (k - 52))) * 2 powr of_int (k - 52)"
proof -
  have pos: "0 < \<bar>x\<bar>" using assms(1) by (smt (verit) powr_gt_zero)
  then have nz: "x \<noteq> 0" by simp
  have "\<lfloor>log 2 \<bar>x\<bar>\<rfloor> = k"
    using assms pos by (simp add: floor_log_eq_powr_iff)
  then show ?thesis using nz by (simp add: double_def)
qed

lemma double_rel_error:
  assumes "0 < x"
  shows "x * (1 - 1 / 2 ^ 53) \<le> double x"
proof -
  define k where "k = \<lfloor>log 2 x\<rfloor>"
  define p :: real where "p = 2 powr of_int (k - 52)"
  have ppos: "0 < p" by (simp add: p_def)
  have "real_of_int k \<le> log 2 x" by (simp add: k_def)
  then have "2 powr of_int k \<le> 2 powr (log 2 x)" by (simp only: powr_le_cancel_iff)
  then have low: "2 powr of_int k \<le> x" using assms by simp
  have "2 powr of_int k = p * 2 ^ 52"
    by (simp add: p_def powr_diff powr_realpow)
  then have px: "p * 2 ^ 52 \<le> x" using low by simp
  have d: "double x = of_int (roundTiesToEven (x / p)) * p"
    using assms by (simp add: double_def k_def p_def)
  have "x / p - 1 / 2 \<le> of_int (roundTiesToEven (x / p))"
    using roundTiesToEven_near [of "x / p"] by linarith
  then have "(x / p - 1 / 2) * p \<le> of_int (roundTiesToEven (x / p)) * p"
    using ppos by (simp only: mult_le_cancel_right_pos)
  moreover have "(x / p - 1 / 2) * p = x - p / 2"
    using ppos by (simp add: left_diff_distrib)
  ultimately have "x - p / 2 \<le> double x" by (simp only: d)
  moreover have "p / 2 \<le> x / 2 ^ 53" using px by (simp add: field_simps)
  ultimately show ?thesis by (simp add: algebra_simps)
qed

lemma double_Ints:
  assumes "\<bar>of_int n :: real\<bar> \<le> 2 ^ 53"
  shows "double (of_int n) = of_int n"
proof (cases "n = 0")
  case True
  then show ?thesis by (simp add: double_def)
next
  case False
  define k where "k = \<lfloor>log 2 \<bar>real_of_int n\<bar>\<rfloor>"
  have pos: "0 < \<bar>real_of_int n\<bar>" using False by simp
  have "real_of_int k \<le> log 2 \<bar>real_of_int n\<bar>" by (simp add: k_def)
  then have "2 powr of_int k \<le> 2 powr (log 2 \<bar>real_of_int n\<bar>)"
    by (simp only: powr_le_cancel_iff)
  then have low: "2 powr of_int k \<le> \<bar>real_of_int n\<bar>" using pos by simp
  have "(2::real) ^ 53 = 2 powr of_int 53" by (simp add: powr_realpow [symmetric])
  then have "2 powr real_of_int k \<le> 2 powr of_int 53" using low assms by linarith
  then have k53: "k \<le> 53" by (simp only: powr_le_cancel_iff of_int_le_iff)
  have d: "double (of_int n) = of_int (roundTiesToEven (of_int n / 2 powr of_int (k - 52)))
                                 * 2 powr of_int (k - 52)"
    using False unfolding double_def k_def Let_def by (simp only: of_int_eq_0_iff if_False)
  show ?thesis
  proof (cases "k \<le> 52")
    case True
    define m where "m = nat (52 - k)"
    have "real_of_int (k - 52) = - real m" using True by (simp add: m_def)
    then have "(2::real) powr of_int (k - 52) = 2 powr (- real m)" by (simp only:)
    also have "\<dots> = inverse (2 powr real m)" by (rule powr_minus)
    also have "\<dots> = 1 / 2 ^ m" by (simp add: powr_realpow inverse_eq_divide)
    finally have e: "(2::real) powr of_int (k - 52) = 1 / 2 ^ m" .
    have "real_of_int n / (1 / 2 ^ m) = of_int (n * 2 ^ m)" by simp
    then have r: "roundTiesToEven (real_of_int n / (1 / 2 ^ m)) = n * 2 ^ m"
      by (simp only: roundTiesToEven_of_int)
    show ?thesis unfolding d e r by simp
  next
    case False
    then have k: "k = 53" using k53 by simp
    then have "\<bar>real_of_int n\<bar> = 2 ^ 53" using assms low by simp
    then have n: "n = 2 ^ 53 \<or> n = - (2 ^ 53)" by (auto simp: abs_if split: if_splits)
    have e: "(2::real) powr of_int (k - 52) = 2" unfolding k by simp
    from n show ?thesis unfolding d e
      by (auto simp: roundTiesToEven_def)
  qed
qed

lemma double_binade_below_one:
  fixes j :: nat
  assumes "1 / 2 ^ j \<le> x" and "x < 2 / 2 ^ j"
  shows "double x = of_int (roundTiesToEven (x * 2 ^ (52 + j))) / 2 ^ (52 + j)"
proof -
  have xpos: "0 < x" using assms(1) by (smt (verit) divide_pos_pos zero_less_power)
  have p1: "(2::real) powr of_int (- int j) = 1 / 2 ^ j"
    by (simp add: powr_minus powr_realpow inverse_eq_divide)
  have p2: "(2::real) powr of_int (- int j + 1) = 2 / 2 ^ j"
  proof -
    have "real_of_int (- int j + 1) = - real j + 1" by simp
    then have "(2::real) powr of_int (- int j + 1) = 2 powr (- real j + 1)" by (simp only:)
    also have "\<dots> = 2 powr (- real j) * 2 powr 1" by (rule powr_add)
    also have "\<dots> = 2 / 2 ^ j" by (simp add: powr_minus powr_realpow inverse_eq_divide)
    finally show ?thesis .
  qed
  have p3: "(2::real) powr of_int (- int j - 52) = 1 / 2 ^ (52 + j)"
  proof -
    have "real_of_int (- int j - 52) = - real (52 + j)" by simp
    then have "(2::real) powr of_int (- int j - 52) = 2 powr (- real (52 + j))" by (simp only:)
    also have "\<dots> = inverse (2 powr real (52 + j))" by (rule powr_minus)
    also have "\<dots> = 1 / 2 ^ (52 + j)" by (simp only: powr_realpow zero_less_numeral inverse_eq_divide)
    finally show ?thesis .
  qed
  have "double x = of_int (roundTiesToEven (x / 2 powr of_int (- int j - 52)))
                     * 2 powr of_int (- int j - 52)"
    using assms xpos by (intro double_binade) (simp_all only: p1 p2 abs_of_pos)
  then show ?thesis unfolding p3 by simp
qed

lemma double_binade_above_one:
  fixes i :: nat
  assumes "i \<le> 52" and "2 ^ i \<le> x" and "x < 2 * 2 ^ i"
  shows "double x = of_int (roundTiesToEven (x * 2 ^ (52 - i))) / 2 ^ (52 - i)"
proof -
  have xpos: "0 < x" using assms(2) by (smt (verit) zero_less_power)
  have p1: "(2::real) powr of_int (int i) = 2 ^ i" by (simp add: powr_realpow)
  have p2: "(2::real) powr of_int (int i + 1) = 2 * 2 ^ i"
    by (simp add: powr_add powr_realpow)
  have p3: "(2::real) powr of_int (int i - 52) = 1 / 2 ^ (52 - i)"
  proof -
    have "real_of_int (int i - 52) = - real (52 - i)" using assms(1) by simp
    then have "(2::real) powr of_int (int i - 52) = 2 powr (- real (52 - i))" by (simp only:)
    also have "\<dots> = inverse (2 powr real (52 - i))" by (rule powr_minus)
    also have "\<dots> = 1 / 2 ^ (52 - i)" by (simp only: powr_realpow zero_less_numeral inverse_eq_divide)
    finally show ?thesis .
  qed
  have "double x = of_int (roundTiesToEven (x / 2 powr of_int (int i - 52)))
                     * 2 powr of_int (int i - 52)"
    using assms xpos by (intro double_binade) (simp_all only: p1 p2 abs_of_pos)
  then show ?thesis unfolding p3 by simp
qed

lemma double_0 [simp]: "double 0 = 0" by (simp add: double_def)

lemma double_small_ints [simp]:
  "double 1 = 1" "double 2 = 2" "double 3 = 3" "double 14 = 14"
  using double_Ints [of 1] double_Ints [of 2] double_Ints [of 3] double_Ints [of 14] by simp_all

lemma double_three_quarters: "double (3 / 4) = 3 / 4"
  using double_binade_below_one [of 1 "3 / 4"] by (simp add: roundTiesToEven_def)

lemma double_three_fifths: "double (3 / 5) = 5404319552844595 / 9007199254740992"
  using double_binade_below_one [of 1 "3 / 5"] by (simp add: roundTiesToEven_def)

lemma double_seven_tenths: "double (7 / 10) = 3152519739159347 / 4503599627370496"
  using double_binade_below_one [of 1 "7 / 10"] by (simp add: roundTiesToEven_def)

lemma double_14_19: "double (14 / 19) = 6636883661388099 / 9007199254740992"
  using double_binade_below_one [of 1 "14 / 19"] by (simp add: roundTiesToEven_def)

lemma double_14_19_times_19:
  "double (6636883661388099 / 9007199254740992 * 19) = 14"
  using double_binade_above_one [of 3 "6636883661388099 / 9007199254740992 * 19"]
  by (simp add: roundTiesToEven_def)

text \<open>
  The running mean after an accurate feedback: from a score of at least 0.7, the
  three rounded operations still give at least 0.7.
\<close>

lemma double_mean_accurate:
  fixes s :: real and c :: int
  assumes s: "double (7 / 10) \<le> s" and c: "3 \<le> c" "c \<le> 2147483647"
  shows "double (7 / 10) \<le> double (double (double (s * of_int c) + 1) / of_int (c + 1))"
proof -
  define K :: real where "K = 3152519739159347 / 4503599627370496"
  define w :: real where "w = 1 - 1 / 2 ^ 53"
  have Ks: "K \<le> s" using s by (simp add: K_def double_seven_tenths)
  have cr: "3 \<le> real_of_int c" "real_of_int c \<le> 2147483647" using c by simp_all
  have Kpos: "0 < K" by (simp add: K_def)
  have wpos: "0 < w" by (simp add: w_def)
  have t: "K * of_int c \<le> s * of_int c" using Ks cr by (intro mult_right_mono) simp_all
  have tpos: "0 < s * of_int c" using t Kpos cr by (smt (verit) mult_pos_pos)
  have a: "K * of_int c * w \<le> double (s * of_int c)"
  proof -
    have "K * of_int c * w \<le> s * of_int c * w" using t wpos by (simp only: mult_le_cancel_right_pos)
    also have "\<dots> \<le> double (s * of_int c)" using double_rel_error [OF tpos] by (simp add: w_def)
    finally show ?thesis .
  qed
  have apos: "0 < double (s * of_int c) + 1"
    using a Kpos cr wpos by (smt (verit) mult_pos_pos)
  have b: "(K * of_int c * w + 1) * w \<le> double (double (s * of_int c) + 1)"
  proof -
    have "(K * of_int c * w + 1) * w \<le> (double (s * of_int c) + 1) * w"
      using a wpos by (simp only: mult_le_cancel_right_pos add_le_cancel_right)
    also have "\<dots> \<le> double (double (s * of_int c) + 1)"
      using double_rel_error [OF apos] by (simp add: w_def)
    finally show ?thesis .
  qed
  have c1: "0 < real_of_int (c + 1)" using c by simp
  have bpos: "0 < double (double (s * of_int c) + 1)"
    using b Kpos cr wpos by (smt (verit) mult_pos_pos add_pos_pos zero_less_one)
  have qpos: "0 < double (double (s * of_int c) + 1) / of_int (c + 1)"
    using bpos c1 by (rule divide_pos_pos)
  have q: "(K * of_int c * w + 1) * w * w / of_int (c + 1)
           \<le> double (double (double (s * of_int c) + 1) / of_int (c + 1))"
  proof -
    have "(K * of_int c * w + 1) * w * w \<le> double (double (s * of_int c) + 1) * w"
      using b wpos by (simp only: mult_le_cancel_right_pos)
    then have "(K * of_int c * w + 1) * w * w / of_int (c + 1)
               \<le> double (double (s * of_int c) + 1) * w / of_int (c + 1)"
      using c1 by (simp only: divide_le_cancel) simp
    also have "\<dots> = double (double (s * of_int c) + 1) / of_int (c + 1) * w" by simp
    also have "\<dots> \<le> double (double (double (s * of_int c) + 1) / of_int (c + 1))"
      using double_rel_error [OF qpos] by (simp add: w_def)
    finally show ?thesis .
  qed
  have num: "K * of_int (c + 1) \<le> (K * of_int c * w + 1) * w * w"
  proof -
    have w3: "1 - 3 / 2 ^ 53 \<le> w * w * w" by (simp add: w_def)
    have w2: "1 - 2 / 2 ^ 53 \<le> w * w" by (simp add: w_def)
    have kc: "0 \<le> K * of_int c" using Kpos cr by simp
    have "K * of_int c * (1 - 3 / 2 ^ 53) \<le> K * of_int c * (w * w * w)"
      using w3 kc by (rule mult_left_mono)
    moreover have "K * of_int c * (3 / 2 ^ 53) \<le> K * 2147483647 * (3 / 2 ^ 53)"
      using cr Kpos by simp
    moreover have "K + K * 2147483647 * (3 / 2 ^ 53) \<le> 1 - 2 / 2 ^ 53" by (simp add: K_def)
    ultimately have "K * of_int c + K \<le> K * of_int c * (w * w * w) + w * w"
      using w2 by (simp add: algebra_simps)
    then show ?thesis by (simp add: algebra_simps)
  qed
  have "K \<le> (K * of_int c * w + 1) * w * w / of_int (c + 1)"
    using num c1 by (simp only: pos_le_divide_eq)
  then have "K \<le> double (double (double (s * of_int c) + 1) / of_int (c + 1))"
    using q by (rule order_trans)
  moreover have "double (7 / 10) = K" by (simp only: K_def double_seven_tenths)
  ultimately show ?thesis by (simp only:)
qed

section \<open>Order creation\<close>

text \<open>Whole numbers of at most 53 bits are doubles.\<close>

lemma double_whole:
  assumes "x \<in> \<int>" and "\<bar>x\<bar> \<le> 9007199254740992"
  shows "double x = x"
proof -
  from assms(1) obtain n where n: "x = of_int n" by (auto elim: Ints_cases)
  show ?thesis using double_Ints [of n] assms(2) unfolding n by simp
qed

text \<open>
  Fetching by a list of keys returns at most one row for each distinct key, and a list
  with a repeated element has fewer distinct elements than entries.
\<close>

lemma length_filter_keys:
  assumes "distinct (map key rows)"
  shows "length (filter (\<lambda>p. key p \<in> set ids \<and> P p) rows) \<le> card (set ids)"
proof -
  let ?found = "filter (\<lambda>p. key p \<in> set ids \<and> P p) rows"
  have d: "distinct (map key ?found)" using assms by (rule distinct_map_filter)
  have "length ?found = length (map key ?found)" by simp
  also have "\<dots> = card (set (map key ?found))" using d by (simp only: distinct_card)
  also have "\<dots> \<le> card (set ids)" by (rule card_mono) auto
  finally show ?thesis .
qed

lemma card_set_less_length:
  assumes "\<not> distinct xs"
  shows "card (set xs) < length xs"
  using assms card_distinct [of xs] card_length [of xs] by (cases "card (set xs) = length xs") auto

text \<open>
  C3. For an active and verified vendor and a line-item list whose quantities are at
  least 1 and whose product ids all match available products of the vendor's catalog,
  order creation is to fail with the minimum-order error below the vendor's minimum and
  otherwise to create the priced order. The handler compares the number of fetched
  product rows with the number of requested lines, so every valid request to an active,
  verified vendor that names a product on two lines is refused with the
  product-not-found error and nothing is stored, whatever its subtotal (product ids
  being the primary key of the products).
\<close>

theorem createOrder_duplicate_lines_refused:
  assumes schema: "createOrderSchema vendorId items"
    and vendor: "find (\<lambda>v. vendor_id v = vendorId) (vendors db) = Some vendor"
    and active: "vendor_isActive vendor" and verified: "vendor_isVerified vendor"
    and pk: "distinct (map product_id (products db))"
    and twice: "\<not> distinct (map req_productId items)"
  shows "createOrder user vendorId items newId db = (Inl PRODUCT_NOT_FOUND, db)"
proof -
  let ?ids = "map req_productId items"
  let ?found = "filter (\<lambda>p. product_id p \<in> set ?ids \<and> product_vendorId p = vendorId)
                  (products db)"
  have "length ?found \<le> card (set ?ids)" using pk by (rule length_filter_keys)
  also have "\<dots> < length ?ids" using twice by (rule card_set_less_length)
  finally have "length ?found \<noteq> length ?ids" by simp
  then show ?thesis
    using schema vendor active verified by (simp add: createOrder_def Let_def)
qed

text \<open>
  So it is for a request that names the same available product of the catalog on two
  lines, with quantities 2 and 2 at a price of 5000: a subtotal of 20000, above the
  vendor's minimum of 10000.
\<close>

theorem createOrder_duplicate_lines_refused_witness:
  "createOrder ex_customer ''v1'' ex_items_dup ''o2'' (ex_db PENDING)
     = (Inl PRODUCT_NOT_FOUND, ex_db PENDING)
   \<and> find (\<lambda>v. vendor_id v = ''v1'') (vendors (ex_db PENDING)) = Some ex_vendor
   \<and> vendor_isActive ex_vendor \<and> vendor_isVerified ex_vendor
   \<and> createOrderSchema ''v1'' ex_items_dup
   \<and> map req_productId ex_items_dup = [''p1'', ''p1'']
   \<and> map req_quantity ex_items_dup = [2, 2]
   \<and> list_all (matchesAvailable (products (ex_db PENDING)) ''v1'') ex_items_dup
   \<and> spec_subtotal (products (ex_db PENDING)) ''v1'' ex_items_dup = 20000
   \<and> vendor_minOrder ex_vendor = 10000"
proof -
  have refused: "createOrder ex_customer ''v1'' ex_items_dup ''o2'' (ex_db PENDING)
                   = (Inl PRODUCT_NOT_FOUND, ex_db PENDING)"
    by (rule createOrder_duplicate_lines_refused [where vendor = ex_vendor])
       (simp_all add: createOrderSchema_def ex_items_dup_def ex_db_def ex_vendor_def
          ex_products_def)
  show ?thesis
    using refused
    by (simp add: createOrderSchema_def ex_items_dup_def ex_db_def ex_vendor_def
          ex_products_def matchesAvailable_def spec_subtotal_def catalogPrice_def)
qed

text \<open>
  On a single line the handler prices as the spec says: with a minimum of 10000 and a
  price of 5000, quantity 1 is refused with the minimum as data, and quantity 4 creates
  an order with subtotal 20000, platform fee 1000 and total 23000. A fractional
  quantity passes the schema and is refused by the store.
\<close>

lemma createOrder_single_line:
  "createOrder ex_customer ''v1'' (ex_items 1) ''o2'' (ex_db PENDING)
     = (Inl (MIN_ORDER_NOT_MET 10000), ex_db PENDING)
   \<and> createOrder ex_customer ''v1'' (ex_items 4) ''o2'' (ex_db PENDING)
     = (Inr ((ex_order PENDING)\<lparr>order_id := ''o2''\<rparr>),
        (ex_db PENDING)\<lparr>orders := [ex_order PENDING, (ex_order PENDING)\<lparr>order_id := ''o2''\<rparr>]\<rparr>)
   \<and> createOrder ex_customer ''v1'' (ex_items (5 / 2)) ''o2'' (ex_db PENDING)
     = (Inl INTERNAL_ERROR, ex_db PENDING)"
proof -
  have fee: "platformFee 20000 = 1000" "platformFee 12500 = 625"
    using platformFee_of_int [of 20000] platformFee_of_int [of 12500] by simp_all
  show ?thesis
    by (simp add: createOrder_def createOrderSchema_def ex_items_def ex_db_def ex_vendor_def
          ex_products_def ex_order_def ex_customer_def double_whole intColumn_def fee Let_def)
qed

section \<open>Alert feedback\<close>

lemma submitFeedback_stored:
  assumes "find (\<lambda>a. alert_id a = aid) (alerts db) = Some alert"
  shows "find (\<lambda>a. alert_id a = aid) (alerts (snd (submitFeedback aid accurate db)))
         = Some (let c = alert_feedbackCount alert;
                     s = (case alert_feedbackScore alert of None \<Rightarrow> 0 | Some x \<Rightarrow> x);
                     s' = double (double (double (s * of_int c) + (if accurate then 1 else 0))
                                    / of_int (c + 1))
                 in alert\<lparr>alert_feedbackScore := Some s', alert_feedbackCount := c + 1,
                          alert_isVerified := (double (7 / 10) \<le> s' \<and> 3 \<le> c + 1)\<rparr>)"
  using assms by (simp add: submitFeedback_def Let_def find_updateWhere_same)

text \<open>
  C4, as stated, fails on the handler: three accurate feedbacks verify the alert
  (score 1, count 3), and two inaccurate ones after them leave the score at the double
  nearest to 3/5, below the double nearest to 7/10, and the flag false.
\<close>

theorem submitFeedback_unverifies_counterexample:
  "map alert_isVerified
     (alerts (submitFeedbacks ''a1'' [True, True, True] (ex_alert_db ALERT_ACTIVE))) = [True]
   \<and> map alert_feedbackScore
     (alerts (submitFeedbacks ''a1'' [True, True, True] (ex_alert_db ALERT_ACTIVE))) = [Some 1]
   \<and> map alert_isVerified
     (alerts (submitFeedbacks ''a1'' [True, True, True, False, False] (ex_alert_db ALERT_ACTIVE)))
       = [False]
   \<and> map alert_feedbackScore
     (alerts (submitFeedbacks ''a1'' [True, True, True, False, False] (ex_alert_db ALERT_ACTIVE)))
       = [Some (5404319552844595 / 9007199254740992)]"
  by (simp add: submitFeedback_def updateWhere_def ex_alert_db_def ex_alert_def Let_def
        double_three_quarters double_three_fifths double_seven_tenths)

text \<open>
  C4, amended. Every \<open>submitFeedback\<close> call recomputes the flag from scratch: the
  stored alert has the incremented count, the new score (the running mean as the
  handler computes it, in doubles), and \<open>isVerified\<close> true exactly when that score is
  at least 0.7 and the new count at least 3. So once the flag is true (score at least
  0.7, count at least 3) a later accurate feedback keeps it true, and a later
  inaccurate feedback keeps it true only while the recomputed score is still at least
  0.7; otherwise the flag becomes false again.
\<close>

theorem submitFeedback_recomputes_isVerified:
  assumes found: "find (\<lambda>a. alert_id a = aid) (alerts db) = Some alert"
  shows "\<exists>alert'. find (\<lambda>a. alert_id a = aid) (alerts (snd (submitFeedback aid accurate db)))
                    = Some alert'
       \<and> alert_feedbackCount alert' = alert_feedbackCount alert + 1
       \<and> alert_feedbackScore alert'
           = Some (double (double (double
                     ((case alert_feedbackScore alert of None \<Rightarrow> 0 | Some x \<Rightarrow> x)
                        * of_int (alert_feedbackCount alert))
                     + (if accurate then 1 else 0))
                   / of_int (alert_feedbackCount alert + 1)))
       \<and> (alert_isVerified alert' \<longleftrightarrow>
            double (7 / 10) \<le> the (alert_feedbackScore alert')
            \<and> 3 \<le> alert_feedbackCount alert')
       \<and> (alert_isVerified alert \<and> alert_feedbackScore alert = Some s
            \<and> double (7 / 10) \<le> s \<and> 3 \<le> alert_feedbackCount alert
            \<and> alert_feedbackCount alert \<le> 2147483647 \<and> accurate
            \<longrightarrow> alert_isVerified alert')"
proof -
  let ?c = "alert_feedbackCount alert"
  let ?s = "case alert_feedbackScore alert of None \<Rightarrow> 0 | Some x \<Rightarrow> x"
  let ?s' = "double (double (double (?s * of_int ?c) + (if accurate then 1 else 0))
                       / of_int (?c + 1))"
  let ?alert' = "alert\<lparr>alert_feedbackScore := Some ?s', alert_feedbackCount := ?c + 1,
                        alert_isVerified := (double (7 / 10) \<le> ?s' \<and> 3 \<le> ?c + 1)\<rparr>"
  have st: "find (\<lambda>a. alert_id a = aid) (alerts (snd (submitFeedback aid accurate db)))
            = Some ?alert'"
    using submitFeedback_stored [OF found, of accurate] by (simp add: Let_def)
  have acc: "alert_isVerified ?alert'"
    if "alert_feedbackScore alert = Some s" "double (7 / 10) \<le> s" "3 \<le> ?c"
       "?c \<le> 2147483647" accurate
    using that double_mean_accurate [of s ?c] by simp
  show ?thesis
  proof (intro exI [of _ ?alert'] conjI impI)
    show "find (\<lambda>a. alert_id a = aid) (alerts (snd (submitFeedback aid accurate db)))
            = Some ?alert'" by (rule st)
    show "alert_feedbackCount ?alert' = ?c + 1" by simp
    show "alert_feedbackScore ?alert' = Some ?s'" by simp
    show "alert_isVerified ?alert' \<longleftrightarrow>
            double (7 / 10) \<le> the (alert_feedbackScore ?alert')
            \<and> 3 \<le> alert_feedbackCount ?alert'"
      by simp
  next
    assume "alert_isVerified alert \<and> alert_feedbackScore alert = Some s
            \<and> double (7 / 10) \<le> s \<and> 3 \<le> alert_feedbackCount alert
            \<and> alert_feedbackCount alert \<le> 2147483647 \<and> accurate"
    then show "alert_isVerified ?alert'" using acc by blast
  qed
qed

theorem submitFeedback_recomputes_isVerified_witness:
  "find (\<lambda>a. alert_id a = ''a1'') (alerts (ex_scored_db 1 3)) = Some (ex_scored_alert 1 3)
   \<and> alert_isVerified (ex_scored_alert 1 3) \<and> double (7 / 10) \<le> 1
   \<and> (\<exists>alert'. find (\<lambda>a. alert_id a = ''a1'')
                    (alerts (snd (submitFeedback ''a1'' True (ex_scored_db 1 3)))) = Some alert'
         \<and> alert_feedbackCount alert' = 4 \<and> alert_feedbackScore alert' = Some 1
         \<and> alert_isVerified alert')
   \<and> (\<exists>alert'. find (\<lambda>a. alert_id a = ''a1'')
                    (alerts (snd (submitFeedback ''a1'' False (ex_scored_db 1 3)))) = Some alert'
         \<and> alert_feedbackCount alert' = 4 \<and> alert_feedbackScore alert' = Some (3 / 4)
         \<and> alert_isVerified alert')
   \<and> (\<exists>alert'. find (\<lambda>a. alert_id a = ''a1'')
                    (alerts (snd (submitFeedback ''a1'' False (ex_scored_db (3 / 4) 4))))
                  = Some alert'
         \<and> alert_feedbackCount alert' = 5
         \<and> alert_feedbackScore alert' = Some (5404319552844595 / 9007199254740992)
         \<and> \<not> alert_isVerified alert')
   \<and> (\<exists>alert'. find (\<lambda>a. alert_id a = ''a1'')
                    (alerts (snd (submitFeedback ''a1'' False
                       (ex_scored_db (6636883661388099 / 9007199254740992) 19))))
                  = Some alert'
         \<and> alert_feedbackCount alert' = 20
         \<and> alert_feedbackScore alert' = Some (3152519739159347 / 4503599627370496)
         \<and> alert_isVerified alert')"
proof -
  have h: "find (\<lambda>a. alert_id a = ''a1'') (alerts (ex_scored_db s c)) = Some (ex_scored_alert s c)"
    for s c
    by (simp add: ex_scored_db_def ex_scored_alert_def ex_alert_def)
  have f: "alert_isVerified (ex_scored_alert s c)"
      "alert_feedbackScore (ex_scored_alert s c) = Some s"
      "alert_feedbackCount (ex_scored_alert s c) = c" for s c
    by (simp_all add: ex_scored_alert_def)
  have k: "double (7 / 10) \<le> 1" by (simp add: double_seven_tenths)
  have q: "double (14 / 20) = 3152519739159347 / 4503599627370496"
    using double_seven_tenths by simp
  from submitFeedback_recomputes_isVerified [OF h [of 1 3], where accurate = True and s = 1]
  have a1: "\<exists>alert'. find (\<lambda>a. alert_id a = ''a1'')
                    (alerts (snd (submitFeedback ''a1'' True (ex_scored_db 1 3)))) = Some alert'
         \<and> alert_feedbackCount alert' = 4 \<and> alert_feedbackScore alert' = Some 1
         \<and> alert_isVerified alert'"
    using double_Ints [of 4] by (auto simp: f double_seven_tenths)
  from submitFeedback_recomputes_isVerified [OF h [of 1 3], where accurate = False and s = 1]
  have a2: "\<exists>alert'. find (\<lambda>a. alert_id a = ''a1'')
                    (alerts (snd (submitFeedback ''a1'' False (ex_scored_db 1 3)))) = Some alert'
         \<and> alert_feedbackCount alert' = 4 \<and> alert_feedbackScore alert' = Some (3 / 4)
         \<and> alert_isVerified alert'"
    by (auto simp: f double_seven_tenths double_three_quarters)
  from submitFeedback_recomputes_isVerified [OF h [of "3 / 4" 4], where accurate = False and s = 1]
  have a3: "\<exists>alert'. find (\<lambda>a. alert_id a = ''a1'')
                    (alerts (snd (submitFeedback ''a1'' False (ex_scored_db (3 / 4) 4))))
                  = Some alert'
         \<and> alert_feedbackCount alert' = 5
         \<and> alert_feedbackScore alert' = Some (5404319552844595 / 9007199254740992)
         \<and> \<not> alert_isVerified alert'"
    by (auto simp: f double_seven_tenths double_three_fifths)
  from submitFeedback_recomputes_isVerified
         [OF h [of "6636883661388099 / 9007199254740992" 19], where accurate = False and s = 1]
  have a4: "\<exists>alert'. find (\<lambda>a. alert_id a = ''a1'')
                    (alerts (snd (submitFeedback ''a1'' False
                       (ex_scored_db (6636883661388099 / 9007199254740992) 19))))
                  = Some alert'
         \<and> alert_feedbackCount alert' = 20
         \<and> alert_feedbackScore alert' = Some (3152519739159347 / 4503599627370496)
         \<and> alert_isVerified alert'"
    using double_14_19_times_19 by (auto simp: f double_seven_tenths q)
  show ?thesis using h f k a1 a2 a3 a4 by simp
qed

section \<open>Alert cancellation\<close>

text \<open>
  C8, as stated, fails on the handler: it has no check of the status, and the creating
  scout cancels an alert that has already expired.
\<close>

theorem cancelAlert_expired_counterexample:
  "cancelAlert ex_scout ''a1'' (ex_alert_db ALERT_EXPIRED)
     = (Inr ''Alert cancelled'', ex_alert_db ALERT_CANCELLED)"
  by (simp add: cancelAlert_def updateWhere_def ex_alert_db_def ex_alert_def ex_scout_def)

text \<open>
  C8, amended. For a stored alert, \<open>cancel\<close> succeeds exactly when the actor is the
  creating scout or an administrator, whatever the alert's status; on success the alert
  has status \<open>CANCELLED\<close> and is otherwise as before; when the actor is neither, the
  call fails and the store is unchanged.
\<close>

theorem cancelAlert_by_scout_or_admin:
  assumes found: "find (\<lambda>a. alert_id a = aid) (alerts db) = Some alert"
  shows "(isOk (fst (cancelAlert user aid db)) \<longleftrightarrow>
            alert_scoutId alert = user_id user \<or> user_role user = ADMIN)
       \<and> (isOk (fst (cancelAlert user aid db)) \<longrightarrow>
            find (\<lambda>a. alert_id a = aid) (alerts (snd (cancelAlert user aid db)))
              = Some (alert\<lparr>alert_status := ALERT_CANCELLED\<rparr>))
       \<and> (\<not> isOk (fst (cancelAlert user aid db)) \<longrightarrow>
            cancelAlert user aid db = (Inl (FORBIDDEN ''You can only cancel your own alerts''), db))"
  using found by (auto simp: cancelAlert_def find_updateWhere_same)

theorem cancelAlert_by_scout_or_admin_witness:
  "find (\<lambda>a. alert_id a = ''a1'') (alerts (ex_alert_db ALERT_ACTIVE)) = Some (ex_alert ALERT_ACTIVE)
   \<and> isOk (fst (cancelAlert ex_scout ''a1'' (ex_alert_db ALERT_ACTIVE)))
   \<and> find (\<lambda>a. alert_id a = ''a1'')
        (alerts (snd (cancelAlert ex_scout ''a1'' (ex_alert_db ALERT_ACTIVE))))
       = Some (ex_alert ALERT_CANCELLED)
   \<and> cancelAlert ex_customer ''a1'' (ex_alert_db ALERT_ACTIVE)
       = (Inl (FORBIDDEN ''You can only cancel your own alerts''), ex_alert_db ALERT_ACTIVE)"
proof -
  have h: "find (\<lambda>a. alert_id a = ''a1'') (alerts (ex_alert_db ALERT_ACTIVE))
           = Some (ex_alert ALERT_ACTIVE)"
    by (simp add: ex_alert_db_def ex_alert_def)
  have f: "alert_scoutId (ex_alert ALERT_ACTIVE) = user_id ex_scout"
      "alert_scoutId (ex_alert ALERT_ACTIVE) \<noteq> user_id ex_customer"
      "user_role ex_customer \<noteq> ADMIN"
      "(ex_alert ALERT_ACTIVE)\<lparr>alert_status := ALERT_CANCELLED\<rparr> = ex_alert ALERT_CANCELLED"
    by (simp_all add: ex_alert_def ex_scout_def ex_customer_def)
  show ?thesis
    using cancelAlert_by_scout_or_admin [OF h, of ex_scout]
          cancelAlert_by_scout_or_admin [OF h, of ex_customer] h f
    by simp
qed

section \<open>Report deduplication\<close>

lemma calculateDistance_same [simp]: "calculateDistance p p = 0"
  by (simp add: calculateDistance_def atan2_def)

lemma scanNearby_result:
  "scanNearby loc uid rs (n, d) =
     (n + int (length (filter (near loc) rs)),
      d \<or> (\<exists>r\<in>set rs. near loc r \<and> report_userId r = uid))"
  by (induction rs arbitrary: n d) (auto simp: Let_def)

lemma recent_near_is_corroborates:
  "filter (near (extractCoordinates location)) (recentReportsOf type now rows)
   = filter (corroborates type location now) rows"
  unfolding recentReportsOf_def corroborates_def filter_filter
  by (rule filter_cong) auto

lemma set_recentReportsOf_near:
  "r \<in> set (recentReportsOf type now rows) \<and> near (extractCoordinates location) r
   \<longleftrightarrow> r \<in> set rows \<and> corroborates type location now r"
  by (auto simp: recentReportsOf_def corroborates_def)

lemma verifyNearby_result:
  "verifyNearby loc vc rs table =
     map (\<lambda>x. if \<exists>r\<in>set rs. near loc r \<and> report_status r = REPORT_PENDING
                                \<and> report_id r = report_id x
               then x\<lparr>report_status := REPORT_VERIFIED, report_verifiedCount := vc\<rparr>
               else x) table"
proof (induction rs arbitrary: table)
  case Nil
  then show ?case by (simp add: map_idI)
next
  case (Cons r rs)
  show ?case
  proof (cases "near loc r \<and> report_status r = REPORT_PENDING")
    case True
    then show ?thesis
      by (auto simp: Cons.IH updateWhere_def Let_def)
  next
    case False
    then show ?thesis
      by (auto simp: Cons.IH Let_def)
  qed
qed

lemma createReport_unfold:
  assumes schema: "geoPointSchema location"
  shows "createReport user type location newId now db =
     (let n = int (length (filter (corroborates type location now) (reports db)));
          report = \<lparr>report_id = newId, report_userId = user_id user, report_type = type,
                    report_location = location, report_status = REPORT_PENDING,
                    report_verifiedCount = n + 1,
                    report_bountyAmount = Some (bountyAmountFor type), report_bountyPaid = False,
                    report_bountyPaidAt = None, report_resolvedAt = None,
                    report_resolvedBy = None, report_resolution = None,
                    report_createdAt = now\<rparr>
      in if \<exists>r\<in>set (reports db). corroborates type location now r
                                     \<and> report_userId r = user_id user
           then (Inl (VALIDATION_ERROR [FieldMessage ''location''
                   ''You have already submitted a similar report for this location'']), db)
         else (Inr report,
               db\<lparr>reports :=
                     (if 2 \<le> n
                      then verifyNearby (extractCoordinates location) (n + 1)
                             (recentReportsOf type now (reports db))
                             (updateWhere report_id newId
                                (\<lambda>x. x\<lparr>report_status := REPORT_VERIFIED\<rparr>) (reports db @ [report]))
                      else reports db @ [report]),
                  reputation := (reputation db)
                     (user_id user := reputation db (user_id user)
                                        + config_reputation_reportPoints)\<rparr>))"
proof -
  have scan: "scanNearby (extractCoordinates location) (user_id user)
                (recentReportsOf type now (reports db)) (0, False)
              = (int (length (filter (corroborates type location now) (reports db))),
                 \<exists>r\<in>set (reports db). corroborates type location now r
                                       \<and> report_userId r = user_id user)"
    unfolding scanNearby_result recent_near_is_corroborates
    using set_recentReportsOf_near [of _ type now "reports db" location] by auto
  show ?thesis
    unfolding createReport_def using schema by (simp add: scan Let_def)
qed

text \<open>
  C6. A new report is refused with the duplicate-report validation error, and the store
  is left as it was, whenever the same reporter already has a report of the same type,
  still open (pending, verified, forwarded or in progress), created within the past 24
  hours and less than 100 meters (haversine) from the new location.
\<close>

theorem createReport_duplicate:
  assumes schema: "geoPointSchema location"
      and mem: "r \<in> set (reports db)"
      and same: "report_userId r = user_id user" "report_type r = type"
      and status: "report_status r \<in> {REPORT_PENDING, REPORT_VERIFIED, REPORT_FORWARDED,
                                         REPORT_IN_PROGRESS}"
      and recent: "now - 24 * 60 * 60 * 1000 \<le> report_createdAt r"
      and close: "calculateDistance (extractCoordinates location)
                    (extractCoordinates (report_location r)) < 100"
  shows "createReport user type location newId now db
         = (Inl (VALIDATION_ERROR [FieldMessage ''location''
               ''You have already submitted a similar report for this location'']), db)"
proof -
  have "corroborates type location now r"
    using same status recent close by (simp add: corroborates_def)
  then have "\<exists>r\<in>set (reports db). corroborates type location now r
                                     \<and> report_userId r = user_id user"
    using mem same(1) by blast
  then show ?thesis
    unfolding createReport_unfold [OF schema] by (simp add: Let_def)
qed

theorem createReport_duplicate_witness:
  "geoPointSchema ex_location
   \<and> ex_report ''r1'' ''u1'' 1 1000 \<in> set (reports ex_report_db)
   \<and> report_userId (ex_report ''r1'' ''u1'' 1 1000) = user_id (ex_reporter ''u1'')
   \<and> report_type (ex_report ''r1'' ''u1'' 1 1000) = LEAK
   \<and> report_status (ex_report ''r1'' ''u1'' 1 1000) = REPORT_PENDING
   \<and> 5000 - 24 * 60 * 60 * 1000 \<le> report_createdAt (ex_report ''r1'' ''u1'' 1 1000)
   \<and> calculateDistance (extractCoordinates ex_location)
        (extractCoordinates (report_location (ex_report ''r1'' ''u1'' 1 1000))) = 0
   \<and> createReport (ex_reporter ''u1'') LEAK ex_location ''r3'' 5000 ex_report_db
       = (Inl (VALIDATION_ERROR [FieldMessage ''location''
             ''You have already submitted a similar report for this location'']), ex_report_db)"
proof -
  let ?r = "ex_report ''r1'' ''u1'' 1 1000"
  have g: "geoPointSchema ex_location" by (simp add: geoPointSchema_def ex_location_def)
  have m: "?r \<in> set (reports ex_report_db)" by (simp add: ex_report_db_def)
  have s: "report_userId ?r = user_id (ex_reporter ''u1'')" "report_type ?r = LEAK"
    by (simp_all add: ex_report_def ex_reporter_def)
  have st: "report_status ?r = REPORT_PENDING" by (simp add: ex_report_def)
  have st': "report_status ?r \<in> {REPORT_PENDING, REPORT_VERIFIED, REPORT_FORWARDED,
                                     REPORT_IN_PROGRESS}"
    by (simp add: st)
  have t: "5000 - 24 * 60 * 60 * 1000 \<le> report_createdAt ?r" by (simp add: ex_report_def)
  have d0: "calculateDistance (extractCoordinates ex_location)
              (extractCoordinates (report_location ?r)) = 0"
    by (simp add: ex_report_def)
  have d: "calculateDistance (extractCoordinates ex_location)
              (extractCoordinates (report_location ?r)) < 100"
    by (simp add: d0)
  show ?thesis
    using createReport_duplicate [OF g m s st' t d, of "''r3''"] g m s st t d0 by simp
qed

lemma verifyNearby_stored:
  assumes pk: "distinct (map report_id rows)"
      and fresh: "report_id new \<notin> set (map report_id rows)"
  shows "verifyNearby (extractCoordinates location) vc (recentReportsOf type now rows)
           (rows @ [new])
         = map (\<lambda>r. if corroborates type location now r \<and> report_status r = REPORT_PENDING
                     then r\<lparr>report_status := REPORT_VERIFIED, report_verifiedCount := vc\<rparr>
                     else r) rows @ [new]"
proof -
  let ?loc = "extractCoordinates location"
  let ?recent = "recentReportsOf type now rows"
  let ?hit = "\<lambda>x. \<exists>r\<in>set ?recent. near ?loc r \<and> report_status r = REPORT_PENDING
                                   \<and> report_id r = report_id x"
  have old: "?hit x \<longleftrightarrow> corroborates type location now x \<and> report_status x = REPORT_PENDING"
    if x: "x \<in> set rows" for x
  proof
    assume "?hit x"
    then obtain r where r: "r \<in> set ?recent" "near ?loc r" "report_status r = REPORT_PENDING"
        "report_id r = report_id x" by blast
    then have rr: "r \<in> set rows" "corroborates type location now r"
      using set_recentReportsOf_near [of r type now rows location] by simp_all
    have "r = x" using pk rr(1) x r(4) by (rule key_unique)
    then show "corroborates type location now x \<and> report_status x = REPORT_PENDING"
      using rr(2) r(3) by simp
  next
    assume c: "corroborates type location now x \<and> report_status x = REPORT_PENDING"
    then have "x \<in> set ?recent \<and> near ?loc x"
      using x set_recentReportsOf_near [of x type now rows location] by simp
    then show "?hit x" using c by blast
  qed
  have new: "\<not> ?hit new"
  proof
    assume "?hit new"
    then obtain r where r: "r \<in> set ?recent" "report_id r = report_id new" by blast
    from r(1) have "r \<in> set rows" by (simp add: recentReportsOf_def)
    then have "report_id r \<in> set (map report_id rows)" by simp
    then show False using fresh r(2) by simp
  qed
  let ?upd = "\<lambda>x. x\<lparr>report_status := REPORT_VERIFIED, report_verifiedCount := vc\<rparr>"
  have rows: "map (\<lambda>x. if ?hit x then ?upd x else x) rows
              = map (\<lambda>r. if corroborates type location now r \<and> report_status r = REPORT_PENDING
                          then ?upd r else r) rows"
    by (rule map_cong [OF refl]) (simp only: old)
  have last: "(if ?hit new then ?upd new else new) = new"
    using new by (simp only: if_False)
  have "verifyNearby ?loc vc ?recent (rows @ [new])
        = map (\<lambda>x. if ?hit x then ?upd x else x) rows @ [if ?hit new then ?upd new else new]"
    unfolding verifyNearby_result by simp
  then show ?thesis by (simp only: rows last)
qed

lemma updateWhere_fresh:
  "k \<notin> set (map key rows) \<Longrightarrow> key new = k \<Longrightarrow>
     updateWhere key k f (rows @ [new]) = rows @ [f new]"
  by (induction rows) (auto simp: updateWhere_def)

text \<open>The handler's distance, on valid coordinates, is the haversine distance of the spec.\<close>

lemma atan2_sqrt_arcsin:
  assumes "0 \<le> a" and "a \<le> 1"
  shows "atan2 (sqrt a) (sqrt (1 - a)) = arcsin (sqrt a)"
proof (cases "a = 1")
  case True
  then show ?thesis by (simp add: atan2_def)
next
  case False
  then have lt: "a < 1" using assms(2) by simp
  have y: "0 \<le> sqrt a" "sqrt a < 1" using assms(1) lt by simp_all
  have pos: "0 < sqrt (1 - a)" using lt by simp
  let ?t = "arcsin (sqrt a)"
  have bounds: "- (pi / 2) < ?t" "?t < pi / 2"
    using arcsin_lt_bounded [of "sqrt a"] y by simp_all
  have y1: "- 1 \<le> sqrt a" "sqrt a \<le> 1" using y by linarith+
  have "cos ?t = sqrt (1 - (sqrt a)\<^sup>2)" using y1 by (rule cos_arcsin)
  then have c: "cos ?t = sqrt (1 - a)" using assms(1) by simp
  have s: "sin ?t = sqrt a" using y1 by (rule sin_arcsin)
  have "tan ?t = sqrt a / sqrt (1 - a)" by (simp add: tan_def s c)
  then have "arctan (sqrt a / sqrt (1 - a)) = ?t"
    using arctan_tan [OF bounds] by simp
  then show ?thesis using pos by (simp add: atan2_def)
qed

lemma haversine_term_bounds:
  assumes "\<bar>phi1\<bar> \<le> pi / 2" and "\<bar>phi2\<bar> \<le> pi / 2"
  shows "0 \<le> (sin ((phi2 - phi1) / 2))\<^sup>2 + cos phi1 * cos phi2 * (sin (dl / 2))\<^sup>2"
    and "(sin ((phi2 - phi1) / 2))\<^sup>2 + cos phi1 * cos phi2 * (sin (dl / 2))\<^sup>2 \<le> 1"
proof -
  have c1: "0 \<le> cos phi1" using assms(1) by (intro cos_ge_zero) (simp_all add: abs_le_iff)
  have c2: "0 \<le> cos phi2" using assms(2) by (intro cos_ge_zero) (simp_all add: abs_le_iff)
  have cc: "0 \<le> cos phi1 * cos phi2" using c1 c2 by simp
  show "0 \<le> (sin ((phi2 - phi1) / 2))\<^sup>2 + cos phi1 * cos phi2 * (sin (dl / 2))\<^sup>2"
    using cc by simp
  have s1: "(sin (dl / 2))\<^sup>2 \<le> 1"
    using sin_cos_squared_add [of "dl / 2"] zero_le_power2 [of "cos (dl / 2)"] by linarith
  have "cos phi1 * cos phi2 * (sin (dl / 2))\<^sup>2 \<le> cos phi1 * cos phi2 * 1"
    using s1 cc by (rule mult_left_mono)
  then have f1: "cos phi1 * cos phi2 * (sin (dl / 2))\<^sup>2 \<le> cos phi1 * cos phi2" by simp
  have f2: "(sin ((phi2 - phi1) / 2))\<^sup>2 = (1 - cos (phi2 - phi1)) / 2"
  proof -
    have t: "2 * ((phi2 - phi1) / 2) = phi2 - phi1" by simp
    have "cos (phi2 - phi1) = 1 - 2 * (sin ((phi2 - phi1) / 2))\<^sup>2"
      using cos_double_sin [of "(phi2 - phi1) / 2"] unfolding t .
    then show ?thesis by simp
  qed
  have f3: "cos (phi2 - phi1) = cos phi1 * cos phi2 + sin phi1 * sin phi2"
    by (simp add: cos_diff)
  have f4: "cos (phi1 + phi2) = cos phi1 * cos phi2 - sin phi1 * sin phi2"
    by (rule cos_add)
  have f5: "cos (phi1 + phi2) \<le> 1" by (rule cos_le_one)
  define A where "A = cos phi1 * cos phi2"
  define B where "B = sin phi1 * sin phi2"
  define S where "S = (sin ((phi2 - phi1) / 2))\<^sup>2"
  define T where "T = cos phi1 * cos phi2 * (sin (dl / 2))\<^sup>2"
  have "T \<le> A" using f1 by (simp only: T_def A_def)
  moreover have "S = (1 - (A + B)) / 2" using f2 f3 by (simp only: S_def A_def B_def)
  moreover have "A - B \<le> 1" using f4 f5 by (simp only: A_def B_def)
  ultimately have "S + T \<le> 1" by argo
  then show "(sin ((phi2 - phi1) / 2))\<^sup>2 + cos phi1 * cos phi2 * (sin (dl / 2))\<^sup>2 \<le> 1"
    by (simp only: S_def T_def)
qed

lemma latitude_radians:
  assumes "- 90 \<le> (x::real)" and "x \<le> 90"
  shows "\<bar>x * pi / 180\<bar> \<le> pi / 2"
proof -
  have "\<bar>x\<bar> \<le> 90" using assms by (simp add: abs_le_iff)
  then have "\<bar>x\<bar> * pi \<le> 90 * pi" by (intro mult_right_mono) simp_all
  then show ?thesis by (simp add: abs_mult)
qed

lemma calculateDistance_is_haversine:
  assumes "geoPointSchema p" and "geoPointSchema q"
  shows "calculateDistance (extractCoordinates p) (extractCoordinates q)
         = spec_haversine (coordinates p) (coordinates q)"
proof -
  let ?phi1 = "snd (coordinates p) * pi / 180"
  let ?phi2 = "snd (coordinates q) * pi / 180"
  let ?dl = "(fst (coordinates q) - fst (coordinates p)) * pi / 180"
  let ?h = "(sin ((?phi2 - ?phi1) / 2))\<^sup>2 + cos ?phi1 * cos ?phi2 * (sin (?dl / 2))\<^sup>2"
  have r1: "\<bar>?phi1\<bar> \<le> pi / 2" using assms(1) by (intro latitude_radians) (simp_all add: geoPointSchema_def)
  have r2: "\<bar>?phi2\<bar> \<le> pi / 2" using assms(2) by (intro latitude_radians) (simp_all add: geoPointSchema_def)
  have h: "0 \<le> ?h" "?h \<le> 1" using haversine_term_bounds [OF r1 r2, of ?dl] by simp_all
  have d: "(snd (coordinates q) - snd (coordinates p)) * pi / 180 = ?phi2 - ?phi1"
    by (simp add: algebra_simps diff_divide_distrib)
  have "calculateDistance (extractCoordinates p) (extractCoordinates q)
        = 6371000 * (2 * atan2 (sqrt ?h) (sqrt (1 - ?h)))"
    unfolding calculateDistance_def extractCoordinates_def Let_def
    by (simp add: d power2_eq_square mult.assoc)
  also have "\<dots> = 6371000 * (2 * arcsin (sqrt ?h))"
    using atan2_sqrt_arcsin [OF h] by simp
  also have "\<dots> = spec_haversine (coordinates p) (coordinates q)"
    by (simp add: spec_haversine_def Let_def)
  finally show ?thesis .
qed

text \<open>Along a meridian the haversine distance is the arc of the latitude difference.\<close>

lemma spec_haversine_meridian:
  assumes "\<bar>b - a\<bar> \<le> 180"
  shows "spec_haversine (l, a) (l, b) = 6371000 * (\<bar>b - a\<bar> * pi / 180)"
proof -
  define x where "x = (b * pi / 180 - a * pi / 180) / 2"
  have x: "x = (b - a) * pi / 360" by (simp add: x_def algebra_simps diff_divide_distrib)
  have "\<bar>b - a\<bar> * pi \<le> 180 * pi" using assms by (intro mult_right_mono) simp_all
  then have xb: "\<bar>x\<bar> \<le> pi / 2" unfolding x by (simp add: abs_mult)
  have pi2: "pi / 2 \<le> pi" by simp
  have "sqrt ((sin x)\<^sup>2) = \<bar>sin x\<bar>" by simp
  also have "\<dots> = sin \<bar>x\<bar>"
  proof (cases "0 \<le> x")
    case True
    moreover have "x \<le> pi" using xb pi2 by linarith
    ultimately have "0 \<le> sin x" by (rule sin_ge_zero)
    then show ?thesis using True by simp
  next
    case False
    then have neg: "x < 0" by simp
    have "0 \<le> - x" using neg by simp
    moreover have "- x \<le> pi" using xb pi2 by linarith
    ultimately have "0 \<le> sin (- x)" by (rule sin_ge_zero)
    then have "sin x \<le> 0" by simp
    then show ?thesis using neg by (simp add: abs_if)
  qed
  finally have s: "sqrt ((sin x)\<^sup>2) = sin \<bar>x\<bar>" .
  have "- (pi / 2) \<le> \<bar>x\<bar>" using pi_ge_zero by linarith
  then have "arcsin (sin \<bar>x\<bar>) = \<bar>x\<bar>" using xb by (rule arcsin_sin)
  then have arc: "arcsin (sqrt ((sin x)\<^sup>2)) = \<bar>b - a\<bar> * pi / 360"
    unfolding s by (simp add: x abs_mult)
  have hv: "spec_haversine (l, a) (l, b) = 2 * 6371000 * arcsin (sqrt ((sin x)\<^sup>2))"
    by (simp add: spec_haversine_def Let_def x_def)
  show ?thesis unfolding hv arc by simp
qed

lemma corroborates_is_spec:
  assumes "geoPointSchema location" and "geoPointSchema (report_location r)"
  shows "corroborates type location now r \<longleftrightarrow> spec_corroborates type (coordinates location) now r"
  unfolding corroborates_def spec_corroborates_def
  using calculateDistance_is_haversine [OF assms] by simp

lemma createReport_verifies_nearby:
  assumes schema: "geoPointSchema location"
      and pk: "distinct (map report_id (reports db))"
      and fresh: "newId \<notin> set (map report_id (reports db))"
      and others: "\<forall>r\<in>set (reports db). corroborates type location now r
                     \<longrightarrow> report_userId r \<noteq> user_id user"
      and two: "2 \<le> length (filter (corroborates type location now) (reports db))"
  shows "\<exists>report. fst (createReport user type location newId now db) = Inr report
       \<and> report_id report = newId \<and> report_userId report = user_id user
       \<and> report_type report = type
       \<and> report_verifiedCount report
           = int (length (filter (corroborates type location now) (reports db))) + 1
       \<and> reports (snd (createReport user type location newId now db))
           = map (\<lambda>r. if corroborates type location now r \<and> report_status r = REPORT_PENDING
                       then r\<lparr>report_status := REPORT_VERIFIED,
                              report_verifiedCount := report_verifiedCount report\<rparr>
                       else r) (reports db)
             @ [report\<lparr>report_status := REPORT_VERIFIED\<rparr>]"
proof -
  let ?n = "int (length (filter (corroborates type location now) (reports db)))"
  let ?report = "\<lparr>report_id = newId, report_userId = user_id user, report_type = type,
                    report_location = location, report_status = REPORT_PENDING,
                    report_verifiedCount = ?n + 1,
                    report_bountyAmount = Some (bountyAmountFor type), report_bountyPaid = False,
                    report_bountyPaidAt = None, report_resolvedAt = None,
                    report_resolvedBy = None, report_resolution = None,
                    report_createdAt = now\<rparr>"
  have nodup: "\<not> (\<exists>r\<in>set (reports db). corroborates type location now r
                                     \<and> report_userId r = user_id user)"
    using others by blast
  have n2: "2 \<le> ?n" using two by simp
  have upd: "updateWhere report_id newId (\<lambda>x. x\<lparr>report_status := REPORT_VERIFIED\<rparr>)
               (reports db @ [?report])
             = reports db @ [?report\<lparr>report_status := REPORT_VERIFIED\<rparr>]"
    using fresh by (intro updateWhere_fresh) simp_all
  have tbl: "verifyNearby (extractCoordinates location) (?n + 1)
               (recentReportsOf type now (reports db))
               (reports db @ [?report\<lparr>report_status := REPORT_VERIFIED\<rparr>])
             = map (\<lambda>r. if corroborates type location now r \<and> report_status r = REPORT_PENDING
                         then r\<lparr>report_status := REPORT_VERIFIED, report_verifiedCount := ?n + 1\<rparr>
                         else r) (reports db)
               @ [?report\<lparr>report_status := REPORT_VERIFIED\<rparr>]"
    using pk fresh by (intro verifyNearby_stored) simp_all
  have res: "createReport user type location newId now db
             = (Inr ?report,
                db\<lparr>reports := map (\<lambda>r. if corroborates type location now r
                                            \<and> report_status r = REPORT_PENDING
                         then r\<lparr>report_status := REPORT_VERIFIED, report_verifiedCount := ?n + 1\<rparr>
                         else r) (reports db)
                       @ [?report\<lparr>report_status := REPORT_VERIFIED\<rparr>],
                   reputation := (reputation db)
                     (user_id user := reputation db (user_id user)
                                        + config_reputation_reportPoints)\<rparr>)"
    unfolding createReport_unfold [OF schema] Let_def
    using nodup n2 by (simp only: if_False if_True upd tbl)
  show ?thesis
    by (rule exI [of _ ?report]) (simp add: res)
qed

text \<open>The example reports along the meridian: which of them lie within 100 meters.\<close>

lemma spec_corroborates_ex_report_at:
  assumes "\<bar>latitude - 80005 / 10000\<bar> \<le> 180"
  shows "spec_corroborates LEAK (coordinates ex_place) now
           (ex_report_at rid uid latitude vc createdAt)
         \<longleftrightarrow> now - 86400000 \<le> createdAt
             \<and> 6371000 * (\<bar>latitude - 80005 / 10000\<bar> * pi / 180) < 100"
proof -
  have hv: "spec_haversine (coordinates ex_place)
              (coordinates (report_location (ex_report_at rid uid latitude vc createdAt)))
            = 6371000 * (\<bar>latitude - 80005 / 10000\<bar> * pi / 180)"
    using spec_haversine_meridian [OF assms, of "- 13"]
    by (simp add: ex_report_at_def ex_report_def ex_place_def)
  show ?thesis
    unfolding spec_corroborates_def hv by (simp add: ex_report_at_def ex_report_def)
qed

lemma ex_place_distances:
  "6371000 * (\<bar>8 - 80005 / 10000\<bar> * pi / 180) < 100"
  "6371000 * (\<bar>80003 / 10000 - 80005 / 10000\<bar> * pi / 180) < 100"
  "\<not> 6371000 * (\<bar>801 / 100 - 80005 / 10000\<bar> * pi / 180) < 100"
  using pi_less_4 pi_ge_two by simp_all

lemma bountyAmountFor_LEAK: "bountyAmountFor LEAK = 20000"
  by code_simp

text \<open>
  The example store is what three creations by three reporters leave of the empty
  store: the first a kilometer away, the second and third 33 meters apart.
\<close>

lemma corroborates_ex_report_at:
  assumes "- 90 \<le> a" "a \<le> 90" "- 90 \<le> b" "b \<le> 90"
  shows "corroborates LEAK \<lparr>coordinates = (- 13, a)\<rparr> now (ex_report_at rid uid b vc createdAt)
         \<longleftrightarrow> now - 86400000 \<le> createdAt \<and> 6371000 * (\<bar>b - a\<bar> * pi / 180) < 100"
proof -
  have g1: "geoPointSchema \<lparr>coordinates = (- 13, a)\<rparr>"
    and g2: "geoPointSchema (report_location (ex_report_at rid uid b vc createdAt))"
    using assms by (simp_all add: geoPointSchema_def ex_report_at_def)
  have ab: "\<bar>b - a\<bar> \<le> 180" using assms by (simp add: abs_le_iff)
  have hv: "spec_haversine (coordinates \<lparr>coordinates = (- 13, a)\<rparr>)
              (coordinates (report_location (ex_report_at rid uid b vc createdAt)))
            = 6371000 * (\<bar>b - a\<bar> * pi / 180)"
    using spec_haversine_meridian [OF ab, of "- 13"] by (simp add: ex_report_at_def)
  show ?thesis
    unfolding corroborates_is_spec [OF g1 g2] spec_corroborates_def hv
    by (simp add: ex_report_at_def ex_report_def)
qed

lemma ex_spread_creations:
  "reports (snd (createReport (ex_reporter ''u2'') LEAK \<lparr>coordinates = (- 13, 80003 / 10000)\<rparr>
                   ''r2'' 2000
             (snd (createReport (ex_reporter ''u1'') LEAK \<lparr>coordinates = (- 13, 8)\<rparr> ''r1'' 1000
             (snd (createReport (ex_reporter ''u0'') LEAK \<lparr>coordinates = (- 13, 801 / 100)\<rparr>
                     ''r0'' 500 ex_empty_db))))))
   = reports ex_spread_db"
proof -
  have g: "geoPointSchema \<lparr>coordinates = (- 13, 801 / 100)\<rparr>"
      "geoPointSchema \<lparr>coordinates = (- 13, 8)\<rparr>"
      "geoPointSchema \<lparr>coordinates = (- 13, 80003 / 10000)\<rparr>"
    by (simp_all add: geoPointSchema_def)
  let ?r0 = "ex_report_at ''r0'' ''u0'' (801 / 100) 1 500"
  let ?r1 = "ex_report_at ''r1'' ''u1'' 8 1 1000"
  let ?r2 = "ex_report_at ''r2'' ''u2'' (80003 / 10000) 2 2000"
  have one: "snd (createReport (ex_reporter ''u0'') LEAK \<lparr>coordinates = (- 13, 801 / 100)\<rparr>
                    ''r0'' 500 ex_empty_db)
             = ex_empty_db\<lparr>reports := [?r0], reputation := (\<lambda>u. 0)(''u0'' := 5)\<rparr>"
    by (simp add: createReport_unfold [OF g(1)] Let_def ex_empty_db_def ex_report_at_def
          ex_report_def ex_reporter_def bountyAmountFor_LEAK config_reputation_reportPoints_def)
  have c10: "\<not> corroborates LEAK \<lparr>coordinates = (- 13, 8)\<rparr> 1000 ?r0"
    using pi_ge_two by (simp add: corroborates_ex_report_at)
  have two: "snd (createReport (ex_reporter ''u1'') LEAK \<lparr>coordinates = (- 13, 8)\<rparr> ''r1'' 1000
                    (ex_empty_db\<lparr>reports := [?r0], reputation := (\<lambda>u. 0)(''u0'' := 5)\<rparr>))
             = ex_empty_db\<lparr>reports := [?r0, ?r1],
                            reputation := (\<lambda>u. 0)(''u0'' := 5, ''u1'' := 5)\<rparr>"
    unfolding createReport_unfold [OF g(2)] Let_def
    by (simp add: c10) (simp add: ex_empty_db_def ex_report_at_def
          ex_report_def ex_reporter_def bountyAmountFor_LEAK config_reputation_reportPoints_def)
  have c20: "\<not> corroborates LEAK \<lparr>coordinates = (- 13, 80003 / 10000)\<rparr> 2000 ?r0"
    using pi_ge_two by (simp add: corroborates_ex_report_at)
  have c21: "corroborates LEAK \<lparr>coordinates = (- 13, 80003 / 10000)\<rparr> 2000 ?r1"
    using pi_less_4 by (simp add: corroborates_ex_report_at)
  have u: "report_userId ?r1 \<noteq> user_id (ex_reporter ''u2'')"
    by (simp add: ex_report_at_def ex_report_def ex_reporter_def)
  have three: "reports (snd (createReport (ex_reporter ''u2'') LEAK
                    \<lparr>coordinates = (- 13, 80003 / 10000)\<rparr> ''r2'' 2000
                    (ex_empty_db\<lparr>reports := [?r0, ?r1],
                            reputation := (\<lambda>u. 0)(''u0'' := 5, ''u1'' := 5)\<rparr>)))
             = [?r0, ?r1, ?r2]"
    unfolding createReport_unfold [OF g(3)] Let_def
    by (simp add: c20 c21 u) (simp add: ex_report_at_def
          ex_report_def ex_reporter_def bountyAmountFor_LEAK)
  show ?thesis by (simp add: one two three ex_spread_db_def)
qed

text \<open>
  C5. When a new report passes the duplicate check (the corroborating reports are from
  other reporters) and at least two stored reports corroborate it (same type, still
  open, created within 24 hours, within 100 meters by haversine distance), the report
  is created with \<open>verifiedCount = nearbyCount + 1\<close> and stored with status
  \<open>VERIFIED\<close>, and every corroborating report still pending is stored as \<open>VERIFIED\<close>
  with the same refreshed count; all other reports, the distant ones among them, are
  left as they were. Stored locations are valid coordinates, as the schema made them.
\<close>

theorem createReport_verifies_corroborated:
  assumes schema: "geoPointSchema location"
      and valid: "\<forall>r\<in>set (reports db). geoPointSchema (report_location r)"
      and pk: "distinct (map report_id (reports db))"
      and fresh: "newId \<notin> set (map report_id (reports db))"
      and others: "\<forall>r\<in>set (reports db). spec_corroborates type (coordinates location) now r
                     \<longrightarrow> report_userId r \<noteq> user_id user"
      and two: "2 \<le> length (filter (spec_corroborates type (coordinates location) now)
                               (reports db))"
  shows "\<exists>report. fst (createReport user type location newId now db) = Inr report
       \<and> report_id report = newId \<and> report_userId report = user_id user
       \<and> report_type report = type
       \<and> report_verifiedCount report
           = int (length (filter (spec_corroborates type (coordinates location) now)
                            (reports db))) + 1
       \<and> reports (snd (createReport user type location newId now db))
           = map (\<lambda>r. if spec_corroborates type (coordinates location) now r
                          \<and> report_status r = REPORT_PENDING
                       then r\<lparr>report_status := REPORT_VERIFIED,
                              report_verifiedCount := report_verifiedCount report\<rparr>
                       else r) (reports db)
             @ [report\<lparr>report_status := REPORT_VERIFIED\<rparr>]"
proof -
  have eq: "corroborates type location now r
            \<longleftrightarrow> spec_corroborates type (coordinates location) now r"
    if "r \<in> set (reports db)" for r
    using that valid by (intro corroborates_is_spec [OF schema]) blast
  have flt: "filter (corroborates type location now) (reports db)
             = filter (spec_corroborates type (coordinates location) now) (reports db)"
    by (rule filter_cong [OF refl]) (rule eq)
  have others': "\<forall>r\<in>set (reports db). corroborates type location now r
                     \<longrightarrow> report_userId r \<noteq> user_id user"
    using others eq by blast
  have two': "2 \<le> length (filter (corroborates type location now) (reports db))"
    using two by (simp only: flt)
  from createReport_verifies_nearby [OF schema pk fresh others' two']
  obtain report where r:
    "fst (createReport user type location newId now db) = Inr report"
    "report_id report = newId" "report_userId report = user_id user"
    "report_type report = type"
    "report_verifiedCount report
       = int (length (filter (corroborates type location now) (reports db))) + 1"
    "reports (snd (createReport user type location newId now db))
       = map (\<lambda>r. if corroborates type location now r \<and> report_status r = REPORT_PENDING
                   then r\<lparr>report_status := REPORT_VERIFIED,
                          report_verifiedCount := report_verifiedCount report\<rparr>
                   else r) (reports db)
         @ [report\<lparr>report_status := REPORT_VERIFIED\<rparr>]"
    by blast
  have mp: "map (\<lambda>r. if corroborates type location now r \<and> report_status r = REPORT_PENDING
                   then r\<lparr>report_status := REPORT_VERIFIED,
                          report_verifiedCount := report_verifiedCount report\<rparr>
                   else r) (reports db)
            = map (\<lambda>r. if spec_corroborates type (coordinates location) now r
                          \<and> report_status r = REPORT_PENDING
                   then r\<lparr>report_status := REPORT_VERIFIED,
                          report_verifiedCount := report_verifiedCount report\<rparr>
                   else r) (reports db)"
    by (rule map_cong [OF refl]) (simp add: eq)
  show ?thesis
  proof (intro exI [of _ report] conjI)
    show "fst (createReport user type location newId now db) = Inr report" by (rule r(1))
    show "report_id report = newId" by (rule r(2))
    show "report_userId report = user_id user" by (rule r(3))
    show "report_type report = type" by (rule r(4))
    show "report_verifiedCount report
           = int (length (filter (spec_corroborates type (coordinates location) now)
                            (reports db))) + 1"
      using r(5) by (simp only: flt)
    show "reports (snd (createReport user type location newId now db))
           = map (\<lambda>r. if spec_corroborates type (coordinates location) now r
                          \<and> report_status r = REPORT_PENDING
                       then r\<lparr>report_status := REPORT_VERIFIED,
                              report_verifiedCount := report_verifiedCount report\<rparr>
                       else r) (reports db)
             @ [report\<lparr>report_status := REPORT_VERIFIED\<rparr>]"
      using r(6) by (simp only: mp)
  qed
qed

theorem createReport_verifies_corroborated_witness:
  "reports (snd (createReport (ex_reporter ''u2'') LEAK \<lparr>coordinates = (- 13, 80003 / 10000)\<rparr>
                   ''r2'' 2000
             (snd (createReport (ex_reporter ''u1'') LEAK \<lparr>coordinates = (- 13, 8)\<rparr> ''r1'' 1000
             (snd (createReport (ex_reporter ''u0'') LEAK \<lparr>coordinates = (- 13, 801 / 100)\<rparr>
                     ''r0'' 500 ex_empty_db))))))
     = reports ex_spread_db
   \<and> geoPointSchema ex_place
   \<and> list_all (\<lambda>r. geoPointSchema (report_location r)) (reports ex_spread_db)
   \<and> map report_id (reports ex_spread_db) = [''r0'', ''r1'', ''r2'']
   \<and> map report_userId (reports ex_spread_db) = [''u0'', ''u1'', ''u2'']
   \<and> map report_status (reports ex_spread_db)
       = [REPORT_PENDING, REPORT_PENDING, REPORT_PENDING]
   \<and> map (spec_corroborates LEAK (coordinates ex_place) 3000) (reports ex_spread_db)
       = [False, True, True]
   \<and> isOk (fst (createReport (ex_reporter ''u3'') LEAK ex_place ''r3'' 3000 ex_spread_db))
   \<and> map report_id
        (reports (snd (createReport (ex_reporter ''u3'') LEAK ex_place ''r3'' 3000 ex_spread_db)))
       = [''r0'', ''r1'', ''r2'', ''r3'']
   \<and> map report_status
        (reports (snd (createReport (ex_reporter ''u3'') LEAK ex_place ''r3'' 3000 ex_spread_db)))
       = [REPORT_PENDING, REPORT_VERIFIED, REPORT_VERIFIED, REPORT_VERIFIED]
   \<and> map report_verifiedCount
        (reports (snd (createReport (ex_reporter ''u3'') LEAK ex_place ''r3'' 3000 ex_spread_db)))
       = [1, 3, 3, 3]"
proof -
  have g: "geoPointSchema ex_place" by (simp add: geoPointSchema_def ex_place_def)
  have rows: "reports ex_spread_db
              = [ex_report_at ''r0'' ''u0'' (801 / 100) 1 500,
                 ex_report_at ''r1'' ''u1'' 8 1 1000,
                 ex_report_at ''r2'' ''u2'' (80003 / 10000) 2 2000]"
    by (simp add: ex_spread_db_def ex_empty_db_def)
  have f: "report_id (ex_report_at rid uid la vc t) = rid"
      "report_userId (ex_report_at rid uid la vc t) = uid"
      "report_status (ex_report_at rid uid la vc t) = REPORT_PENDING"
      "report_verifiedCount (ex_report_at rid uid la vc t) = vc"
      "report_location (ex_report_at rid uid la vc t) = \<lparr>coordinates = (- 13, la)\<rparr>"
    for rid uid la vc t
    by (simp_all add: ex_report_at_def ex_report_def)
  have v: "\<forall>r\<in>set (reports ex_spread_db). geoPointSchema (report_location r)"
    by (simp add: rows f geoPointSchema_def)
  have c: "spec_corroborates LEAK (coordinates ex_place) 3000
             (ex_report_at ''r0'' ''u0'' (801 / 100) 1 500) = False"
      "spec_corroborates LEAK (coordinates ex_place) 3000
             (ex_report_at ''r1'' ''u1'' 8 1 1000) = True"
      "spec_corroborates LEAK (coordinates ex_place) 3000
             (ex_report_at ''r2'' ''u2'' (80003 / 10000) 2 2000) = True"
    using ex_place_distances by (simp_all add: spec_corroborates_ex_report_at)
  have pk: "distinct (map report_id (reports ex_spread_db))" by (simp add: rows f)
  have fr: "''r3'' \<notin> set (map report_id (reports ex_spread_db))" by (simp add: rows f)
  have oth: "\<forall>r\<in>set (reports ex_spread_db).
               spec_corroborates LEAK (coordinates ex_place) 3000 r
               \<longrightarrow> report_userId r \<noteq> user_id (ex_reporter ''u3'')"
    by (simp add: rows f ex_reporter_def)
  have two: "2 \<le> length (filter (spec_corroborates LEAK (coordinates ex_place) 3000)
                            (reports ex_spread_db))"
    by (simp add: rows c)
  from createReport_verifies_corroborated [OF g v pk fr oth two]
  obtain report where r:
    "fst (createReport (ex_reporter ''u3'') LEAK ex_place ''r3'' 3000 ex_spread_db) = Inr report"
    "report_id report = ''r3''"
    "report_verifiedCount report = 3"
    "reports (snd (createReport (ex_reporter ''u3'') LEAK ex_place ''r3'' 3000 ex_spread_db))
       = map (\<lambda>r. if spec_corroborates LEAK (coordinates ex_place) 3000 r
                      \<and> report_status r = REPORT_PENDING
                   then r\<lparr>report_status := REPORT_VERIFIED,
                          report_verifiedCount := report_verifiedCount report\<rparr>
                   else r) (reports ex_spread_db)
         @ [report\<lparr>report_status := REPORT_VERIFIED\<rparr>]"
    by (auto simp: rows c)
  have lv: "list_all (\<lambda>r. geoPointSchema (report_location r)) (reports ex_spread_db)"
    using v by (simp add: list_all_iff)
  show ?thesis
    using g lv ex_spread_creations by (simp add: r) (simp add: rows c f r)
qed

section \<open>Report resolution\<close>

lemma updateReportStatus_resolved:
  assumes admin: "authorize [ADMIN] user"
      and schema: "updateReportStatusSchema resolution"
      and found: "find (\<lambda>r. report_id r = rid) (reports db) = Some report"
  shows "updateReportStatus user rid REPORT_RESOLVED resolution n1 n2 db =
     (let pay = (\<not> report_bountyPaid report \<and> report_bountyAmount report \<noteq> None
                 \<and> report_bountyAmount report \<noteq> Some 0);
          resolved = (\<lambda>r. r\<lparr>report_status := REPORT_RESOLVED, report_resolvedAt := Some n1,
                          report_resolvedBy := Some (user_id user),
                          report_resolution := (case resolution of
                                                  None \<Rightarrow> report_resolution r
                                                | Some res \<Rightarrow> Some res)\<rparr>);
          updateData = (\<lambda>r. if pay then (resolved r)\<lparr>report_bountyPaid := True,
                                                      report_bountyPaidAt := Some n2\<rparr>
                             else resolved r)
      in (Inr (updateData report),
          db\<lparr>reports := updateWhere report_id rid updateData (reports db),
             reputation := (if pay
                            then (reputation db)(report_userId report :=
                                   reputation db (report_userId report)
                                   + config_reputation_verifiedReportBonus)
                            else reputation db)\<rparr>))"
  using admin schema found by (simp add: updateReportStatus_def Let_def)

text \<open>
  C9, as stated, fails on the handler: it has no check of the current status, so
  resolving a report that is already \<open>RESOLVED\<close> succeeds again; and a report whose
  bounty amount is missing is resolved without \<open>bountyPaid\<close> being set.
\<close>

theorem updateReportStatus_resolve_twice_counterexample:
  "isOk (fst (updateReportStatus ex_admin ''r1'' REPORT_RESOLVED (Some ''fixed'') 7000 7001
               ex_report_db))
   \<and> map report_status
        (reports (snd (updateReportStatus ex_admin ''r1'' REPORT_RESOLVED (Some ''fixed'') 7000 7001
                        ex_report_db))) = [REPORT_RESOLVED, REPORT_PENDING]
   \<and> isOk (fst (updateReportStatus ex_admin ''r1'' REPORT_RESOLVED (Some ''again'') 8000 8001
        (snd (updateReportStatus ex_admin ''r1'' REPORT_RESOLVED (Some ''fixed'') 7000 7001
               ex_report_db))))
   \<and> map report_bountyPaid
        (reports (snd (updateReportStatus ex_admin ''r1'' REPORT_RESOLVED None 7000 7001
           (ex_empty_db\<lparr>reports :=
              [(ex_report ''r1'' ''u1'' 1 1000)\<lparr>report_bountyAmount := None\<rparr>]\<rparr>)))) = [False]"
  by (simp add: updateReportStatus_def authorize_def updateReportStatusSchema_def
        updateWhere_def Let_def ex_admin_def ex_report_db_def ex_empty_db_def ex_report_def)

text \<open>
  C9, amended. For an administrator, a stored report and a resolution text within the
  schema's length, \<open>resolve\<close> succeeds whatever the report's current status (also when it is already \<open>RESOLVED\<close>). It sets
  \<open>resolvedAt\<close>, \<open>resolvedBy\<close>, the resolution (when one is given) and status
  \<open>RESOLVED\<close>. If the bounty is not yet paid and the bounty amount is set and not
  zero, it marks \<open>bountyPaid\<close>, stamps \<open>bountyPaidAt\<close> and adds the fixed bonus of 15
  to the reporter's reputation; otherwise \<open>bountyPaid\<close>, \<open>bountyPaidAt\<close> and all
  reputations are left as they are, so a bounty is paid at most once.
\<close>

theorem updateReportStatus_resolve:
  assumes admin: "authorize [ADMIN] user"
      and schema: "updateReportStatusSchema resolution"
      and found: "find (\<lambda>r. report_id r = rid) (reports db) = Some report"
  shows "\<exists>report'.
           fst (updateReportStatus user rid REPORT_RESOLVED resolution n1 n2 db) = Inr report'
         \<and> find (\<lambda>r. report_id r = rid)
             (reports (snd (updateReportStatus user rid REPORT_RESOLVED resolution n1 n2 db)))
             = Some report'
         \<and> report_status report' = REPORT_RESOLVED
         \<and> report_resolvedAt report' = Some n1
         \<and> report_resolvedBy report' = Some (user_id user)
         \<and> report_resolution report'
             = (case resolution of None \<Rightarrow> report_resolution report | Some res \<Rightarrow> Some res)
         \<and> (\<not> report_bountyPaid report \<and> report_bountyAmount report \<noteq> None
              \<and> report_bountyAmount report \<noteq> Some 0 \<longrightarrow>
                report_bountyPaid report' \<and> report_bountyPaidAt report' = Some n2
              \<and> reputation (snd (updateReportStatus user rid REPORT_RESOLVED resolution n1 n2 db))
                  = (reputation db)(report_userId report :=
                       reputation db (report_userId report) + 15))
         \<and> (report_bountyPaid report \<or> report_bountyAmount report = None
              \<or> report_bountyAmount report = Some 0 \<longrightarrow>
                report_bountyPaid report' = report_bountyPaid report
              \<and> report_bountyPaidAt report' = report_bountyPaidAt report
              \<and> reputation (snd (updateReportStatus user rid REPORT_RESOLVED resolution n1 n2 db))
                  = reputation db)"
proof -
  let ?pay = "\<not> report_bountyPaid report \<and> report_bountyAmount report \<noteq> None
              \<and> report_bountyAmount report \<noteq> Some 0"
  let ?resolved = "\<lambda>r. r\<lparr>report_status := REPORT_RESOLVED, report_resolvedAt := Some n1,
                          report_resolvedBy := Some (user_id user),
                          report_resolution := (case resolution of
                                                  None \<Rightarrow> report_resolution r
                                                | Some res \<Rightarrow> Some res)\<rparr>"
  let ?updateData = "\<lambda>r. if ?pay then (?resolved r)\<lparr>report_bountyPaid := True,
                                                      report_bountyPaidAt := Some n2\<rparr>
                             else ?resolved r"
  have key: "report_id (?updateData r) = report_id r" for r :: Report by simp
  have res: "updateReportStatus user rid REPORT_RESOLVED resolution n1 n2 db
        = (Inr (?updateData report),
           db\<lparr>reports := updateWhere report_id rid ?updateData (reports db),
              reputation := (if ?pay
                            then (reputation db)(report_userId report :=
                                   reputation db (report_userId report)
                                   + config_reputation_verifiedReportBonus)
                            else reputation db)\<rparr>)"
    using updateReportStatus_resolved [OF admin schema found, of n1 n2]
    by (simp only: Let_def)
  have stored: "find (\<lambda>r. report_id r = rid) (updateWhere report_id rid ?updateData (reports db))
                = Some (?updateData report)"
    using find_updateWhere_same [of report_id ?updateData rid "reports db", OF key] found
    by simp
  show ?thesis
    apply (rule exI [of _ "?updateData report"])
    apply (simp only: res fst_conv snd_conv)
    using stored by (simp add: config_reputation_verifiedReportBonus_def)
qed

theorem updateReportStatus_resolve_witness:
  "authorize [ADMIN] ex_admin
   \<and> updateReportStatusSchema (Some ''fixed'') \<and> updateReportStatusSchema None
   \<and> find (\<lambda>r. report_id r = ''r1'') (reports ex_report_db) = Some (ex_report ''r1'' ''u1'' 1 1000)
   \<and> \<not> report_bountyPaid (ex_report ''r1'' ''u1'' 1 1000)
   \<and> report_bountyAmount (ex_report ''r1'' ''u1'' 1 1000) = Some 20000
   \<and> updateReportStatus ex_admin ''r1'' REPORT_RESOLVED (Some ''fixed'') 7000 7001 ex_report_db
       = (Inr ex_resolved_report,
          ex_report_db\<lparr>reports := [ex_resolved_report, ex_report ''r2'' ''u2'' 2 2000],
                        reputation := (\<lambda>u. 0)(''u1'' := 15)\<rparr>)
   \<and> (\<exists>report'. fst (updateReportStatus ex_admin ''r1'' REPORT_RESOLVED (Some ''fixed'') 7000 7001
                        ex_report_db) = Inr report'
        \<and> report_status report' = REPORT_RESOLVED \<and> report_resolvedAt report' = Some 7000
        \<and> report_resolvedBy report' = Some ''u_admin'' \<and> report_resolution report' = Some ''fixed''
        \<and> report_bountyPaid report' \<and> report_bountyPaidAt report' = Some 7001)
   \<and> reputation (snd (updateReportStatus ex_admin ''r1'' REPORT_RESOLVED (Some ''fixed'') 7000 7001
                        ex_report_db)) ''u1'' = 15
   \<and> find (\<lambda>r. report_id r = ''r1'') (reports ex_resolved_db) = Some ex_resolved_report
   \<and> report_bountyPaid ex_resolved_report \<and> report_status ex_resolved_report = REPORT_RESOLVED
   \<and> (\<exists>report'. fst (updateReportStatus ex_admin ''r1'' REPORT_RESOLVED None 8000 8001
                        ex_resolved_db) = Inr report'
        \<and> report_status report' = REPORT_RESOLVED \<and> report_resolvedAt report' = Some 8000
        \<and> report_resolution report' = Some ''fixed''
        \<and> report_bountyPaid report' \<and> report_bountyPaidAt report' = Some 7001)
   \<and> reputation (snd (updateReportStatus ex_admin ''r1'' REPORT_RESOLVED None 8000 8001
                        ex_resolved_db)) = reputation ex_resolved_db"
proof -
  have a: "authorize [ADMIN] ex_admin" by (simp add: authorize_def ex_admin_def)
  have s: "updateReportStatusSchema (Some ''fixed'')" and s': "updateReportStatusSchema None"
    by (simp_all add: updateReportStatusSchema_def)
  have h: "find (\<lambda>r. report_id r = ''r1'') (reports ex_report_db)
           = Some (ex_report ''r1'' ''u1'' 1 1000)"
    by (simp add: ex_report_db_def ex_report_def)
  have h': "find (\<lambda>r. report_id r = ''r1'') (reports ex_resolved_db) = Some ex_resolved_report"
    by (simp add: ex_resolved_db_def ex_resolved_report_def ex_report_def)
  have f: "\<not> report_bountyPaid (ex_report ''r1'' ''u1'' 1 1000)"
      "report_bountyAmount (ex_report ''r1'' ''u1'' 1 1000) = Some 20000"
    by (simp_all add: ex_report_def)
  have f': "report_bountyPaid ex_resolved_report"
      "report_status ex_resolved_report = REPORT_RESOLVED"
      "report_bountyPaidAt ex_resolved_report = Some 7001"
      "report_resolution ex_resolved_report = Some ''fixed''"
    by (simp_all add: ex_resolved_report_def)
  have first: "updateReportStatus ex_admin ''r1'' REPORT_RESOLVED (Some ''fixed'') 7000 7001
                 ex_report_db
       = (Inr ex_resolved_report,
          ex_report_db\<lparr>reports := [ex_resolved_report, ex_report ''r2'' ''u2'' 2 2000],
                        reputation := (\<lambda>u. 0)(''u1'' := 15)\<rparr>)"
    by (simp add: updateReportStatus_def authorize_def updateReportStatusSchema_def
          updateWhere_def Let_def ex_admin_def
          ex_report_db_def ex_empty_db_def ex_report_def ex_resolved_report_def
          config_reputation_verifiedReportBonus_def)
  have g: "report_userId (ex_report ''r1'' ''u1'' 1 1000) = ''u1''"
      "user_id ex_admin = ''u_admin''" "reputation ex_report_db ''u1'' = 0"
    by (simp_all add: ex_report_def ex_admin_def ex_report_db_def ex_empty_db_def)
  from updateReportStatus_resolve [OF a s h, of 7000 7001]
  have paid: "(\<exists>report'. fst (updateReportStatus ex_admin ''r1'' REPORT_RESOLVED (Some ''fixed'') 7000 7001
                        ex_report_db) = Inr report'
        \<and> report_status report' = REPORT_RESOLVED \<and> report_resolvedAt report' = Some 7000
        \<and> report_resolvedBy report' = Some ''u_admin'' \<and> report_resolution report' = Some ''fixed''
        \<and> report_bountyPaid report' \<and> report_bountyPaidAt report' = Some 7001)
     \<and> reputation (snd (updateReportStatus ex_admin ''r1'' REPORT_RESOLVED (Some ''fixed'') 7000 7001
                        ex_report_db)) ''u1'' = 15"
    by (auto simp: f g)
  from updateReportStatus_resolve [OF a s' h', of 8000 8001]
  have again: "(\<exists>report'. fst (updateReportStatus ex_admin ''r1'' REPORT_RESOLVED None 8000 8001
                        ex_resolved_db) = Inr report'
        \<and> report_status report' = REPORT_RESOLVED \<and> report_resolvedAt report' = Some 8000
        \<and> report_resolution report' = Some ''fixed''
        \<and> report_bountyPaid report' \<and> report_bountyPaidAt report' = Some 7001)
     \<and> reputation (snd (updateReportStatus ex_admin ''r1'' REPORT_RESOLVED None 8000 8001
                        ex_resolved_db)) = reputation ex_resolved_db"
    by (auto simp: f')
  show ?thesis using a s s' h h' f f' first paid again by simp
qed

end
